theory Spec2Isabelle
  imports Complex_Main "HOL-Library.Word"
begin

section \<open>Mesh buffers\<close>

text \<open>
  The mesh kernel of \<^verbatim>\<open>tools/generate_item_models.py\<close> and
  \<^verbatim>\<open>tools/generate_medkit.py\<close> (the two files hold identical copies of
  \<^verbatim>\<open>create_box\<close>, \<^verbatim>\<open>create_cylinder\<close>, \<^verbatim>\<open>merge_meshes\<close> and
  \<^verbatim>\<open>create_glb\<close>).

  A primitive output is the tuple \<^verbatim>\<open>(positions, normals, colors, indices)\<close> of numpy
  arrays: three arrays of shape \<open>(n, 3)\<close> and one flat array of dtype \<^verbatim>\<open>uint32\<close>.
  Rows are triples; index values are 32-bit words, so that the addition in
  \<^verbatim>\<open>merge_meshes\<close> wraps as numpy's does. The arithmetic of the builders is modelled
  by the real numbers: \<^verbatim>\<open>np.cos\<close>, \<^verbatim>\<open>np.sin\<close>, \<^verbatim>\<open>np.sqrt\<close> and \<^verbatim>\<open>np.pi\<close> are
  \<open>cos\<close>, \<open>sin\<close>, \<open>sqrt\<close> and \<open>pi\<close>, and the builders and \<^verbatim>\<open>merge_meshes\<close> carry
  the exact values. The source stores every coordinate as a 32-bit float
  (\<^verbatim>\<open>dtype=np.float32\<close>); that rounding is applied once, where \<^verbatim>\<open>create_glb\<close>
  converts its arguments with \<^verbatim>\<open>astype(np.float32)\<close>, and rounding a value that is
  already a 32-bit float does not change it.

  An array of shape \<open>(n, 3)\<close> is a list of \<open>n\<close> triples. A builder whose loops do not run
  returns \<^verbatim>\<open>np.array([])\<close>, which numpy makes a one-dimensional array of shape
  \<open>(0,)\<close> and not an array of rows; the empty list of triples stands for an array of shape
  \<open>(0, 3)\<close>, so the model does not cover the output of a builder without vertices.
\<close>

type_synonym vec3 = "real \<times> real \<times> real"
type_synonym u32 = "32 word"
type_synonym byte = "8 word"

record mesh =
  positions :: "vec3 list"
  normals :: "vec3 list"
  colors :: "vec3 list"
  indices :: "u32 list"

text \<open>The exceptions the modelled code can raise.\<close>

datatype error = ZeroDivisionError | ValueError | OSError

text \<open>\<^verbatim>\<open>range(n)\<close>: the integers \<open>0, \<dots>, n - 1\<close>, none when \<open>n \<le> 0\<close>.\<close>

definition py_range :: "int \<Rightarrow> int list" where
  "py_range n = [0..n - 1]"

text \<open>
  The builders append to the Python lists \<^verbatim>\<open>positions\<close>, \<^verbatim>\<open>normals\<close> and
  \<^verbatim>\<open>colors\<close> together, one entry each per vertex, so a vertex is a triple
  (position, normal, colour); \<^verbatim>\<open>indices\<close> is a list of Python integers. The four
  \<^verbatim>\<open>np.array(..., dtype=...)\<close> conversions of the \<^verbatim>\<open>return\<close> statement split the
  vertices into the three arrays and store the indices as \<^verbatim>\<open>uint32\<close>. Every index a
  builder computes is below its vertex count; the conversion is written as reduction modulo
  \<open>2\<^sup>3\<^sup>2\<close>, which changes nothing for a mesh of fewer than \<open>2\<^sup>3\<^sup>2\<close> vertices.
\<close>

type_synonym vertex = "vec3 \<times> vec3 \<times> vec3"

definition np_arrays :: "vertex list \<Rightarrow> int list \<Rightarrow> mesh" where
  "np_arrays verts idx =
     \<lparr>positions = map fst verts,
      normals = map (fst \<circ> snd) verts,
      colors = map (snd \<circ> snd) verts,
      indices = map word_of_int idx\<rparr>"

section \<open>Primitive builders\<close>

definition create_box :: "real \<Rightarrow> real \<Rightarrow> real \<Rightarrow> vec3 \<Rightarrow> vec3 \<Rightarrow> mesh" where
  "create_box w h d color origin =
     (case origin of (ox, oy, oz) \<Rightarrow>
      let hw = w / 2; hh = h / 2; hd = d / 2 in
      \<lparr>positions =
         [(ox - hw, oy - hh, oz + hd), (ox + hw, oy - hh, oz + hd), (ox + hw, oy + hh, oz + hd), (ox - hw, oy + hh, oz + hd),
          (ox + hw, oy - hh, oz - hd), (ox - hw, oy - hh, oz - hd), (ox - hw, oy + hh, oz - hd), (ox + hw, oy + hh, oz - hd),
          (ox - hw, oy + hh, oz + hd), (ox + hw, oy + hh, oz + hd), (ox + hw, oy + hh, oz - hd), (ox - hw, oy + hh, oz - hd),
          (ox - hw, oy - hh, oz - hd), (ox + hw, oy - hh, oz - hd), (ox + hw, oy - hh, oz + hd), (ox - hw, oy - hh, oz + hd),
          (ox + hw, oy - hh, oz + hd), (ox + hw, oy - hh, oz - hd), (ox + hw, oy + hh, oz - hd), (ox + hw, oy + hh, oz + hd),
          (ox - hw, oy - hh, oz - hd), (ox - hw, oy - hh, oz + hd), (ox - hw, oy + hh, oz + hd), (ox - hw, oy + hh, oz - hd)],
       normals =
         [(0, 0, 1), (0, 0, 1), (0, 0, 1), (0, 0, 1),
          (0, 0, -1), (0, 0, -1), (0, 0, -1), (0, 0, -1),
          (0, 1, 0), (0, 1, 0), (0, 1, 0), (0, 1, 0),
          (0, -1, 0), (0, -1, 0), (0, -1, 0), (0, -1, 0),
          (1, 0, 0), (1, 0, 0), (1, 0, 0), (1, 0, 0),
          (-1, 0, 0), (-1, 0, 0), (-1, 0, 0), (-1, 0, 0)],
       colors = replicate 24 color,
       indices =
         [0, 1, 2, 0, 2, 3,
          4, 5, 6, 4, 6, 7,
          8, 9, 10, 8, 10, 11,
          12, 13, 14, 12, 14, 15,
          16, 17, 18, 16, 18, 19,
          20, 21, 22, 20, 22, 23]\<rparr>)"

text \<open>
  \<^verbatim>\<open>create_cylinder\<close>: the side loop, the side index loop, the top cap (centre, ring,
  fan) and the bottom cap, in the order of the source. \<^verbatim>\<open>top_radius=None\<close> is
  \<open>None\<close>. The divisions and the \<^verbatim>\<open>%\<close> by \<^verbatim>\<open>segments\<close> stand inside loops over
  \<^verbatim>\<open>range(segments)\<close>, so they run only when \<open>segments \<ge> 1\<close> and never divide by
  zero.
\<close>

definition create_cylinder ::
  "real \<Rightarrow> real \<Rightarrow> int \<Rightarrow> vec3 \<Rightarrow> vec3 \<Rightarrow> real option \<Rightarrow> mesh" where
  "create_cylinder radius height segments color origin top_radius_arg =
     (case origin of (ox, oy, oz) \<Rightarrow>
      let top_radius = (case top_radius_arg of None \<Rightarrow> radius | Some t \<Rightarrow> t);
          angle = (\<lambda>i. 2 * pi * real_of_int i / real_of_int segments);
          side = concat (map (\<lambda>i.
                   let cos_a = cos (angle i); sin_a = sin (angle i) in
                   [((ox + radius * cos_a, oy, oz + radius * sin_a), (cos_a, 0, sin_a), color),
                    ((ox + top_radius * cos_a, oy + height, oz + top_radius * sin_a), (cos_a, 0, sin_a), color)])
                 (py_range segments));
          side_idx = concat (map (\<lambda>i.
                   let i0 = i * 2; i1 = i * 2 + 1;
                       i2 = ((i + 1) mod segments) * 2;
                       i3 = ((i + 1) mod segments) * 2 + 1
                   in [i0, i2, i1, i1, i2, i3])
                 (py_range segments));
          top_center_idx = int (length side);
          top = ((ox, oy + height, oz), (0, 1, 0), color) #
                map (\<lambda>i. ((ox + top_radius * cos (angle i), oy + height, oz + top_radius * sin (angle i)),
                          (0, 1, 0), color))
                  (py_range segments);
          top_idx = concat (map (\<lambda>i.
                   [top_center_idx, top_center_idx + 1 + i, top_center_idx + 1 + ((i + 1) mod segments)])
                 (py_range segments));
          bot_center_idx = int (length (side @ top));
          bot = ((ox, oy, oz), (0, -1, 0), color) #
                map (\<lambda>i. ((ox + radius * cos (angle i), oy, oz + radius * sin (angle i)),
                          (0, -1, 0), color))
                  (py_range segments);
          bot_idx = concat (map (\<lambda>i.
                   [bot_center_idx, bot_center_idx + 1 + ((i + 1) mod segments), bot_center_idx + 1 + i])
                 (py_range segments))
      in np_arrays (side @ top @ bot) (side_idx @ top_idx @ bot_idx))"

text \<open>
  \<^verbatim>\<open>create_cone\<close> (only in \<^verbatim>\<open>generate_item_models.py\<close>). \<^verbatim>\<open>radius / height\<close>
  divides two Python numbers and raises \<^verbatim>\<open>ZeroDivisionError\<close> when \<^verbatim>\<open>height\<close> is
  zero; \<^verbatim>\<open>normal_len\<close> is at least 1.
\<close>

definition create_cone ::
  "real \<Rightarrow> real \<Rightarrow> int \<Rightarrow> vec3 \<Rightarrow> vec3 \<Rightarrow> error + mesh" where
  "create_cone radius height segments color origin =
     (case origin of (ox, oy, oz) \<Rightarrow>
      if height = 0 then Inl ZeroDivisionError
      else
        let apex_idx = (0 :: int);
            slope = radius / height;
            normal_len = sqrt (1 + slope * slope);
            angle = (\<lambda>i. 2 * pi * real_of_int i / real_of_int segments);
            side = ((ox, oy + height, oz), (0, 1 / normal_len, 0), color) #
                   map (\<lambda>i.
                     let cos_a = cos (angle i); sin_a = sin (angle i) in
                     ((ox + radius * cos_a, oy, oz + radius * sin_a),
                      (cos_a / normal_len, slope / normal_len, sin_a / normal_len), color))
                   (py_range segments);
            side_idx = concat (map (\<lambda>i.
                     let i1 = 1 + i; i2 = 1 + ((i + 1) mod segments) in [apex_idx, i1, i2])
                   (py_range segments));
            bot_center_idx = int (length side);
            bot_center = [((ox, oy, oz), (0, -1, 0), color)];
            bot_start = int (length (side @ bot_center));
            bot = map (\<lambda>i. ((ox + radius * cos (angle i), oy, oz + radius * sin (angle i)),
                          (0, -1, 0), color))
                    (py_range segments);
            bot_idx = concat (map (\<lambda>i.
                     [bot_center_idx, bot_start + ((i + 1) mod segments), bot_start + i])
                   (py_range segments))
        in Inr (np_arrays (side @ bot_center @ bot) (side_idx @ bot_idx)))"

text \<open>\<^verbatim>\<open>create_torus\<close> (only in \<^verbatim>\<open>generate_item_models.py\<close>): two nested loops.\<close>

definition create_torus ::
  "real \<Rightarrow> real \<Rightarrow> int \<Rightarrow> int \<Rightarrow> vec3 \<Rightarrow> vec3 \<Rightarrow> mesh" where
  "create_torus outer_r inner_r segments rings color origin =
     (case origin of (ox, oy, oz) \<Rightarrow>
      let verts = concat (map (\<lambda>i.
                    let theta = 2 * pi * real_of_int i / real_of_int rings;
                        cos_t = cos theta; sin_t = sin theta;
                        center_x = ox + (outer_r - inner_r) * cos_t;
                        center_z = oz + (outer_r - inner_r) * sin_t
                    in map (\<lambda>j.
                         let phi = 2 * pi * real_of_int j / real_of_int segments;
                             cos_p = cos phi; sin_p = sin phi;
                             x = center_x + inner_r * cos_p * cos_t;
                             y = oy + inner_r * sin_p;
                             z = center_z + inner_r * cos_p * sin_t;
                             nx = cos_p * cos_t;
                             ny = sin_p;
                             nz = cos_p * sin_t
                         in ((x, y, z), (nx, ny, nz), color))
                       (py_range segments))
                  (py_range rings));
          idx = concat (map (\<lambda>i. concat (map (\<lambda>j.
                    let curr = i * segments + j;
                        next_i = ((i + 1) mod rings) * segments + j;
                        next_j = i * segments + ((j + 1) mod segments);
                        next_ij = ((i + 1) mod rings) * segments + ((j + 1) mod segments)
                    in [curr, next_i, next_j, next_i, next_ij, next_j])
                  (py_range segments)))
                (py_range rings))
      in np_arrays verts idx)"

text \<open>
  \<^verbatim>\<open>create_half_cylinder\<close> (only in \<^verbatim>\<open>generate_medkit.py\<close>). \<^verbatim>\<open>segments // 2\<close>
  is floor division. The first loop runs over \<^verbatim>\<open>range(half_segments + 1)\<close> and divides
  the Python float \<^verbatim>\<open>np.pi * i\<close> by \<^verbatim>\<open>half_segments\<close>: when \<^verbatim>\<open>half_segments\<close> is
  zero its first pass raises \<^verbatim>\<open>ZeroDivisionError\<close>; when it is negative the loop is
  empty. The \<^verbatim>\<open>axis\<close> argument is compared with the string \<^verbatim>\<open>'x'\<close>.
\<close>

definition create_half_cylinder ::
  "real \<Rightarrow> real \<Rightarrow> int \<Rightarrow> vec3 \<Rightarrow> vec3 \<Rightarrow> string \<Rightarrow> error + mesh" where
  "create_half_cylinder radius height segments color origin axis =
     (case origin of (ox, oy, oz) \<Rightarrow>
      let half_segments = segments div 2;
          angle = (\<lambda>i. - pi / 2 + pi * real_of_int i / real_of_int half_segments);
          idx = concat (map (\<lambda>i.
                  let i0 = i * 2; i1 = i * 2 + 1; i2 = (i + 1) * 2; i3 = (i + 1) * 2 + 1
                  in [i0, i2, i1, i1, i2, i3])
                (py_range half_segments))
      in
      if half_segments = 0 then Inl ZeroDivisionError
      else if axis = ''x'' then
        Inr (np_arrays
          (concat (map (\<lambda>i.
             let cos_a = cos (angle i); sin_a = sin (angle i) in
             [((ox, oy, oz + radius * sin_a), (0, 0, sin_a), color),
              ((ox, oy + height, oz + radius * sin_a), (0, 0, sin_a), color)])
           (py_range (half_segments + 1))))
          idx)
      else
        Inr (np_arrays
          (concat (map (\<lambda>i.
             let cos_a = cos (angle i); sin_a = sin (angle i) in
             [((ox + radius * cos_a, oy, oz), (cos_a, 0, 0), color),
              ((ox + radius * cos_a, oy + height, oz), (cos_a, 0, 0), color)])
           (py_range (half_segments + 1))))
          idx))"

section \<open>Merging\<close>

text \<open>
  \<^verbatim>\<open>np.vstack\<close> and \<^verbatim>\<open>np.hstack\<close> concatenate a sequence of arrays and raise
  \<^verbatim>\<open>ValueError\<close> (\<^verbatim>\<open>need at least one array to concatenate\<close>) when the sequence is
  empty. \<^verbatim>\<open>np.vstack\<close> also raises \<^verbatim>\<open>ValueError\<close> when the arrays differ in the
  length of their rows. Between arrays of triples that cannot happen, but a one-dimensional
  array of shape \<open>(0,)\<close>, as a builder without vertices returns it, is taken for one row of
  length 0 and refused beside rows of length 3. Such arrays are not arrays of triples; the
  contract of \<^verbatim>\<open>merge_meshes\<close> is therefore stated for inputs that have at least one
  vertex each.
\<close>

definition vstack :: "'a list list \<Rightarrow> error + 'a list" where
  "vstack arrays = (if arrays = [] then Inl ValueError else Inr (concat arrays))"

definition hstack :: "'a list list \<Rightarrow> error + 'a list" where
  "hstack arrays = (if arrays = [] then Inl ValueError else Inr (concat arrays))"

text \<open>
  The loop of \<^verbatim>\<open>merge_meshes\<close> carries the four lists of arrays and
  \<^verbatim>\<open>index_offset\<close>. \<^verbatim>\<open>indices + index_offset\<close> adds the Python integer to every
  element of the \<^verbatim>\<open>uint32\<close> array: numpy takes an offset below \<open>2\<^sup>3\<^sup>2\<close> into the
  element type and adds in 32 bits, so that a sum of \<open>2\<^sup>3\<^sup>2\<close> or more wraps around. An
  offset of \<open>2\<^sup>3\<^sup>2\<close> or more does not fit the element type, and numpy's answer to it
  has changed between versions; the model reduces it modulo \<open>2\<^sup>3\<^sup>2\<close> as well, and every
  statement below that a mesh is returned with given contents assumes fewer than
  \<open>2\<^sup>3\<^sup>2\<close> vertices in total.
\<close>

record merge_state =
  all_positions :: "vec3 list list"
  all_normals :: "vec3 list list"
  all_colors :: "vec3 list list"
  all_indices :: "u32 list list"
  index_offset :: nat

definition merge_step :: "merge_state \<Rightarrow> mesh \<Rightarrow> merge_state" where
  "merge_step s m =
     \<lparr>all_positions = all_positions s @ [positions m],
      all_normals = all_normals s @ [normals m],
      all_colors = all_colors s @ [colors m],
      all_indices = all_indices s @ [map (\<lambda>i. i + of_nat (index_offset s)) (indices m)],
      index_offset = index_offset s + length (positions m)\<rparr>"

definition merge_init :: merge_state where
  "merge_init = \<lparr>all_positions = [], all_normals = [], all_colors = [], all_indices = [], index_offset = 0\<rparr>"

definition merge_meshes :: "mesh list \<Rightarrow> error + mesh" where
  "merge_meshes meshes =
     (let s = foldl merge_step merge_init meshes in
      case vstack (all_positions s) of Inl e \<Rightarrow> Inl e | Inr p \<Rightarrow>
     (case vstack (all_normals s) of Inl e \<Rightarrow> Inl e | Inr n \<Rightarrow>
     (case vstack (all_colors s) of Inl e \<Rightarrow> Inl e | Inr c \<Rightarrow>
     (case hstack (all_indices s) of Inl e \<Rightarrow> Inl e | Inr i \<Rightarrow>
        Inr \<lparr>positions = p, normals = n, colors = c, indices = i\<rparr>))))"

section \<open>Binary asset writer\<close>

text \<open>
  \<^verbatim>\<open>create_glb\<close> builds a \<^verbatim>\<open>GLTF2\<close> document and a binary blob and has pygltflib
  write them to \<^verbatim>\<open>output_path\<close>. The model keeps the parts of the document that the
  function computes: the buffer length, the four buffer views, the four accessors and the
  blob. The constants \<^verbatim>\<open>ARRAY_BUFFER\<close>, \<^verbatim>\<open>ELEMENT_ARRAY_BUFFER\<close>, \<^verbatim>\<open>FLOAT\<close> and
  \<^verbatim>\<open>UNSIGNED_INT\<close> belong to pygltflib and are kept symbolic. The mesh, node and scene
  entries are constants of the source and are left out.
\<close>

datatype buffer_target = ARRAY_BUFFER | ELEMENT_ARRAY_BUFFER

datatype component_type = FLOAT | UNSIGNED_INT

record buffer_view =
  buffer :: nat
  byteOffset :: nat
  byteLength :: nat
  target :: buffer_target

record accessor =
  bufferView :: nat
  componentType :: component_type
  count :: nat
  accessor_type :: string
  accessor_min :: "vec3 option"
  accessor_max :: "vec3 option"

record gltf =
  buffer_byteLength :: nat
  bufferViews :: "buffer_view list"
  accessors :: "accessor list"
  binary_blob :: "byte list"

subsection \<open>Conversion to 32-bit floats\<close>

text \<open>
  \<^verbatim>\<open>astype(np.float32)\<close> rounds every number to the nearest 32-bit float, ties to the
  even significand. A 32-bit float has a significand of 24 bits: for
  \<open>2\<^sup>e \<le> |x| < 2\<^sup>e\<^sup>+\<^sup>1\<close> the floats around \<open>x\<close> are the multiples of \<open>2\<^sup>e\<^sup>-\<^sup>2\<^sup>3\<close>.
  The exponent is not bounded here: overflow to infinity (beyond \<open>2\<^sup>1\<^sup>2\<^sup>8\<close>) and the
  subnormal numbers (below \<open>2\<^sup>-\<^sup>1\<^sup>2\<^sup>6\<close>) are not modelled.
\<close>

definition round_half_even :: "real \<Rightarrow> int" where
  "round_half_even y =
     (let f = \<lfloor>y\<rfloor> in
      if y - of_int f < 1 / 2 then f
      else if 1 / 2 < y - of_int f then f + 1
      else if even f then f else f + 1)"

definition float32 :: "real \<Rightarrow> real" where
  "float32 x =
     (if x = 0 then 0
      else let e = \<lfloor>log 2 \<bar>x\<bar>\<rfloor>; ulp = 2 powr (of_int e - 23)
           in sgn x * (of_int (round_half_even (\<bar>x\<bar> / ulp)) * ulp))"

definition astype_float32 :: "vec3 list \<Rightarrow> vec3 list" where
  "astype_float32 rows = map (\<lambda>(x, y, z). (float32 x, float32 y, float32 z)) rows"

text \<open>
  The first four statements of \<^verbatim>\<open>create_glb\<close>. The index array is \<^verbatim>\<open>uint32\<close>
  already, so \<^verbatim>\<open>astype(np.uint32)\<close> leaves it as it is.
\<close>

definition astype_arrays :: "mesh \<Rightarrow> mesh" where
  "astype_arrays m =
     \<lparr>positions = astype_float32 (positions m),
      normals = astype_float32 (normals m),
      colors = astype_float32 (colors m),
      indices = indices m\<rparr>"

subsection \<open>Bytes\<close>

text \<open>The nested function \<^verbatim>\<open>pad_to_4\<close>.\<close>

definition pad_to_4 :: "byte list \<Rightarrow> byte list" where
  "pad_to_4 data = (let padding = (4 - length data mod 4) mod 4 in data @ replicate padding 0)"

text \<open>
  The four bytes of a 32-bit pattern, low byte first; \<^verbatim>\<open>tobytes()\<close> of a \<^verbatim>\<open>uint32\<close>
  array writes them for every element in order.
\<close>

definition u32_bytes :: "u32 \<Rightarrow> byte list" where
  "u32_bytes w = [ucast w, ucast (drop_bit 8 w), ucast (drop_bit 16 w), ucast (drop_bit 24 w)]"

definition tobytes_u32 :: "u32 list \<Rightarrow> byte list" where
  "tobytes_u32 xs = concat (map u32_bytes xs)"

text \<open>
  \<^verbatim>\<open>tobytes()\<close> of a \<^verbatim>\<open>float32\<close> array of shape \<open>(n, 3)\<close>: the rows in order, the
  three components of a row in order, each component the four bytes of its IEEE 754
  pattern, low byte first. The pattern of a 32-bit float (sign, exponent and fraction
  fields) is numpy's and is the parameter \<open>bits\<close>.
\<close>

definition tobytes_f32 :: "(real \<Rightarrow> u32) \<Rightarrow> vec3 list \<Rightarrow> byte list" where
  "tobytes_f32 bits rows =
     concat (map (\<lambda>(x, y, z). u32_bytes (bits x) @ u32_bytes (bits y) @ u32_bytes (bits z)) rows)"

text \<open>
  \<^verbatim>\<open>positions.min(axis=0)\<close> and \<^verbatim>\<open>positions.max(axis=0)\<close>: the minimum and the maximum
  of each column. On an array without rows numpy raises \<^verbatim>\<open>ValueError\<close> (a zero-size
  array has no minimum).
\<close>

definition min_axis0 :: "vec3 list \<Rightarrow> error + vec3" where
  "min_axis0 rows =
     (case rows of
        [] \<Rightarrow> Inl ValueError
      | r # rest \<Rightarrow> Inr (fold (\<lambda>(x, y, z) (a, b, c). (min a x, min b y, min c z)) rest r))"

definition max_axis0 :: "vec3 list \<Rightarrow> error + vec3" where
  "max_axis0 rows =
     (case rows of
        [] \<Rightarrow> Inl ValueError
      | r # rest \<Rightarrow> Inr (fold (\<lambda>(x, y, z) (a, b, c). (max a x, max b y, max c z)) rest r))"

subsection \<open>The document\<close>

text \<open>
  The statements of \<^verbatim>\<open>create_glb\<close> from the byte strings to the four buffer views,
  on the converted arrays: the byte strings, their padding, the blob and the views. Nothing
  here can raise.
\<close>

definition glb_buffers :: "(real \<Rightarrow> u32) \<Rightarrow> mesh \<Rightarrow> byte list \<times> buffer_view list" where
  "glb_buffers bits m =
     (let pos_bytes = tobytes_f32 bits (positions m);
          norm_bytes = tobytes_f32 bits (normals m);
          color_bytes = tobytes_f32 bits (colors m);
          index_bytes = tobytes_u32 (indices m);
          pos_padded = pad_to_4 pos_bytes;
          norm_padded = pad_to_4 norm_bytes;
          color_padded = pad_to_4 color_bytes;
          index_padded = pad_to_4 index_bytes;
          binary_data = pos_padded @ norm_padded @ color_padded @ index_padded;
          pos_view = \<lparr>buffer = 0, byteOffset = 0, byteLength = length pos_bytes, target = ARRAY_BUFFER\<rparr>;
          norm_view = \<lparr>buffer = 0, byteOffset = length pos_padded, byteLength = length norm_bytes,
                       target = ARRAY_BUFFER\<rparr>;
          color_view = \<lparr>buffer = 0, byteOffset = length pos_padded + length norm_padded,
                        byteLength = length color_bytes, target = ARRAY_BUFFER\<rparr>;
          index_view = \<lparr>buffer = 0,
                        byteOffset = length pos_padded + length norm_padded + length color_padded,
                        byteLength = length index_bytes, target = ELEMENT_ARRAY_BUFFER\<rparr>
      in (binary_data, [pos_view, norm_view, color_view, index_view]))"

text \<open>
  The four accessors, on the converted arrays. The position accessor evaluates
  \<^verbatim>\<open>positions.min(axis=0)\<close> and \<^verbatim>\<open>positions.max(axis=0)\<close> and can raise.
\<close>

definition glb_accessors :: "mesh \<Rightarrow> error + accessor list" where
  "glb_accessors m =
     (case min_axis0 (positions m) of Inl e \<Rightarrow> Inl e | Inr lo \<Rightarrow>
     (case max_axis0 (positions m) of Inl e \<Rightarrow> Inl e | Inr hi \<Rightarrow>
        let pos_accessor = \<lparr>bufferView = 0, componentType = FLOAT, count = length (positions m),
                              accessor_type = ''VEC3'', accessor_min = Some lo, accessor_max = Some hi\<rparr>;
            norm_accessor = \<lparr>bufferView = 1, componentType = FLOAT, count = length (normals m),
                              accessor_type = ''VEC3'', accessor_min = None, accessor_max = None\<rparr>;
            color_accessor = \<lparr>bufferView = 2, componentType = FLOAT, count = length (colors m),
                              accessor_type = ''VEC3'', accessor_min = None, accessor_max = None\<rparr>;
            index_accessor = \<lparr>bufferView = 3, componentType = UNSIGNED_INT, count = length (indices m),
                              accessor_type = ''SCALAR'', accessor_min = None, accessor_max = None\<rparr>
        in Inr [pos_accessor, norm_accessor, color_accessor, index_accessor]))"

text \<open>
  \<^verbatim>\<open>create_glb\<close> up to \<^verbatim>\<open>gltf.set_binary_blob\<close>: the conversion, the buffers, the
  accessors and the document, together with the triangle count \<^verbatim>\<open>len(indices) // 3\<close>
  that the function returns in the end.
\<close>

definition glb_document :: "(real \<Rightarrow> u32) \<Rightarrow> mesh \<Rightarrow> error + gltf \<times> nat" where
  "glb_document bits m0 =
     (let m = astype_arrays m0 in
      case glb_buffers bits m of (binary_data, views) \<Rightarrow>
     (case glb_accessors m of Inl e \<Rightarrow> Inl e | Inr accs \<Rightarrow>
        Inr (\<lparr>buffer_byteLength = length binary_data,
                  bufferViews = views,
                  accessors = accs,
                  binary_blob = binary_data\<rparr>,
             length (indices m) div 3)))"

subsection \<open>The file\<close>

text \<open>
  \<^verbatim>\<open>gltf.save(output_path)\<close> is pygltflib's: it opens the path for writing, which
  empties the file, and writes the binary container into it. The container starts with the
  header of the format, twelve bytes (the magic number \<^verbatim>\<open>glTF\<close>, the version 2 and the
  total length); the two chunks that follow, the metadata as JSON text and the blob, are laid
  out by pygltflib and are the parameter \<open>chunks\<close>.

  A file system maps paths to contents. The storage can fail: when the path cannot be
  opened nothing is written, and when it fails after a number of bytes those bytes are in
  the file. Both raise \<^verbatim>\<open>OSError\<close>.
\<close>

type_synonym file_system = "string \<rightharpoonup> byte list"

datatype storage_fault = OpenFails | WriteFailsAfter nat

definition glb_file :: "(gltf \<Rightarrow> byte list) \<Rightarrow> gltf \<Rightarrow> byte list" where
  "glb_file chunks g =
     u32_bytes 0x46546C67 @ u32_bytes 2 @ u32_bytes (of_nat (12 + length (chunks g))) @ chunks g"

definition save ::
  "(gltf \<Rightarrow> byte list) \<Rightarrow> storage_fault option \<Rightarrow> file_system \<Rightarrow> string \<Rightarrow> gltf
     \<Rightarrow> file_system \<times> (error + unit)" where
  "save chunks fault fs fname g =
     (case fault of
        None \<Rightarrow> (fs(fname \<mapsto> glb_file chunks g), Inr ())
      | Some OpenFails \<Rightarrow> (fs, Inl OSError)
      | Some (WriteFailsAfter k) \<Rightarrow> (fs(fname \<mapsto> take k (glb_file chunks g)), Inl OSError))"

text \<open>
  \<^verbatim>\<open>create_glb\<close>: the document, then \<^verbatim>\<open>gltf.save(output_path)\<close>, then the triangle
  count. The function has no \<^verbatim>\<open>try\<close>: an exception of any step ends it, and what the
  file system holds at that moment stays.
\<close>

definition create_glb ::
  "(real \<Rightarrow> u32) \<Rightarrow> (gltf \<Rightarrow> byte list) \<Rightarrow> storage_fault option \<Rightarrow> file_system \<Rightarrow> mesh \<Rightarrow> string
     \<Rightarrow> file_system \<times> (error + nat)" where
  "create_glb bits chunks fault fs m output_path =
     (case glb_document bits m of
        Inl e \<Rightarrow> (fs, Inl e)
      | Inr (gltf, tri_count) \<Rightarrow>
          (case save chunks fault fs output_path gltf of
             (fs', Inl e) \<Rightarrow> (fs', Inl e)
           | (fs', Inr u) \<Rightarrow> (fs', Inr tri_count)))"

section \<open>The vocabulary of the specification\<close>

text \<open>The number of vertices of a primitive output.\<close>

definition vertex_count :: "mesh \<Rightarrow> nat" where
  "vertex_count m = length (positions m)"

text \<open>
  The invariant of a primitive output: the index buffer is a whole number of triangles,
  every index addresses a vertex, and the three vertex arrays have one length.
\<close>

definition well_formed :: "mesh \<Rightarrow> bool" where
  "well_formed m \<longleftrightarrow>
     length (indices m) mod 3 = 0
   \<and> (\<forall>i \<in> set (indices m). unat i < length (positions m))
   \<and> length (positions m) = length (normals m)
   \<and> length (normals m) = length (colors m)"

text \<open>
  The starting vertex offset of the \<open>k\<close>-th input of a merge: the sum of the vertex counts
  of the inputs before it. The index buffer the contract describes is the concatenation of
  every input's indices, each raised by its input's offset.
\<close>

definition start_offset :: "mesh list \<Rightarrow> nat \<Rightarrow> nat" where
  "start_offset ms k = sum_list (map vertex_count (take k ms))"

definition offset_indices :: "mesh list \<Rightarrow> nat \<Rightarrow> nat list" where
  "offset_indices ms k = map (\<lambda>i. unat i + start_offset ms k) (indices (ms ! k))"

definition spec_index_buffer :: "mesh list \<Rightarrow> nat list" where
  "spec_index_buffer ms = concat (map (offset_indices ms) [0..<length ms])"

text \<open>
  What the loop appends to \<^verbatim>\<open>all_indices\<close> for the \<open>k\<close>-th input when it starts with
  the offset \<open>base\<close>: the input's indices plus the offset, added in 32 bits.
\<close>

definition shifted :: "nat \<Rightarrow> mesh list \<Rightarrow> nat \<Rightarrow> u32 list" where
  "shifted base ms k = map (\<lambda>i. i + of_nat (base + start_offset ms k)) (indices (ms ! k))"

text \<open>The triangles of an index buffer: its consecutive triples.\<close>

fun triangles :: "'a list \<Rightarrow> ('a \<times> 'a \<times> 'a) list" where
  "triangles (a # b # c # rest) = (a, b, c) # triangles rest"
| "triangles _ = []"

text \<open>
  A triangle of the merged mesh belongs to input \<open>k\<close> when its three indices lie in the
  offset range of that input, from the input's starting offset up to the next one.
\<close>

definition triangle_of_input :: "mesh list \<Rightarrow> nat \<Rightarrow> u32 \<times> u32 \<times> u32 \<Rightarrow> bool" where
  "triangle_of_input ms k t =
     (case t of (a, b, c) \<Rightarrow>
        list_all (\<lambda>x. start_offset ms k \<le> unat x \<and> unat x < start_offset ms k + vertex_count (ms ! k))
          [a, b, c])"

definition one_owner :: "mesh list \<Rightarrow> u32 \<times> u32 \<times> u32 \<Rightarrow> bool" where
  "one_owner ms t = list_ex (\<lambda>k. triangle_of_input ms k t) [0..<length ms]"

text \<open>The length of a vector, and the distance of a point from the vertical axis through \<open>origin\<close>.\<close>

definition magnitude :: "vec3 \<Rightarrow> real" where
  "magnitude v = (case v of (x, y, z) \<Rightarrow> sqrt (x * x + y * y + z * z))"

definition axis_distance :: "vec3 \<Rightarrow> vec3 \<Rightarrow> real" where
  "axis_distance origin p =
     (case origin of (ox, oy, oz) \<Rightarrow> case p of (x, y, z) \<Rightarrow>
        sqrt ((x - ox) * (x - ox) + (z - oz) * (z - oz)))"

text \<open>
  Padding as the specification words it: zero bytes up to the next multiple of four.
\<close>

definition zero_pad_to_multiple_of_4 :: "byte list \<Rightarrow> byte list" where
  "zero_pad_to_multiple_of_4 data = data @ replicate (4 * ((length data + 3) div 4) - length data) 0"

text \<open>The bytes of a buffer view, read back from the blob.\<close>

definition view_bytes :: "byte list \<Rightarrow> buffer_view \<Rightarrow> byte list" where
  "view_bytes blob v = take (byteLength v) (drop (byteOffset v) blob)"

text \<open>A little-endian reading of four bytes.\<close>

definition u32_of_bytes :: "byte list \<Rightarrow> u32" where
  "u32_of_bytes bs = foldr (\<lambda>b w. or (ucast b) (push_bit 8 w)) bs 0"

text \<open>A byte string read as 32-bit values, four bytes each.\<close>

fun words_of_bytes :: "byte list \<Rightarrow> u32 list" where
  "words_of_bytes (a # b # c # d # rest) = u32_of_bytes [a, b, c, d] # words_of_bytes rest"
| "words_of_bytes _ = []"

text \<open>The 32-bit patterns that the rows of a converted array are stored as, in order.\<close>

definition stored_patterns :: "(real \<Rightarrow> u32) \<Rightarrow> vec3 list \<Rightarrow> u32 list" where
  "stored_patterns bits rows =
     concat (map (\<lambda>(x, y, z). [bits (float32 x), bits (float32 y), bits (float32 z)]) rows)"

text \<open>
  Two well-formed meshes whose vertex counts add up to more than 32 bits can index:
  \<open>2\<^sup>3\<^sup>2 - 1\<close> vertices without triangles, and one triangle.
\<close>

definition huge_mesh :: mesh where
  "huge_mesh =
     \<lparr>positions = replicate 4294967295 (0, 0, 0),
      normals = replicate 4294967295 (0, 1, 0),
      colors = replicate 4294967295 (1, 1, 1),
      indices = []\<rparr>"

definition one_triangle :: mesh where
  "one_triangle =
     \<lparr>positions = [(0, 0, 0), (1, 0, 0), (0, 0, 1)],
      normals = [(0, 1, 0), (0, 1, 0), (0, 1, 0)],
      colors = [(1, 1, 1), (1, 1, 1), (1, 1, 1)],
      indices = [0, 1, 2]\<rparr>"

text \<open>
  The box of the end-to-end example:
  \<^verbatim>\<open>create_box(0.28, 0.18, 0.10, color=(0.545, 0.118, 0.118), origin=(0, 0, 0))\<close>.
\<close>

definition example_box :: mesh where
  "example_box = create_box 0.28 0.18 0.10 (0.545, 0.118, 0.118) (0, 0, 0)"

section \<open>Auxiliary facts\<close>

subsection \<open>The loop of \<^verbatim>\<open>merge_meshes\<close>\<close>

lemma merge_step_sel:
  "all_positions (merge_step s m) = all_positions s @ [positions m]"
  "all_normals (merge_step s m) = all_normals s @ [normals m]"
  "all_colors (merge_step s m) = all_colors s @ [colors m]"
  "all_indices (merge_step s m) = all_indices s @ [map (\<lambda>i. i + of_nat (index_offset s)) (indices m)]"
  "index_offset (merge_step s m) = index_offset s + vertex_count m"
  by (simp_all add: merge_step_def vertex_count_def)

lemma index_offset_foldl:
  "index_offset (foldl merge_step s ms) = index_offset s + sum_list (map vertex_count ms)"
  by (induction ms arbitrary: s) (simp_all add: merge_step_sel)

lemma foldl_merge_step_positions:
  "all_positions (foldl merge_step s ms) = all_positions s @ map positions ms"
  by (induction ms arbitrary: s) (simp_all add: merge_step_sel)

lemma foldl_merge_step_normals:
  "all_normals (foldl merge_step s ms) = all_normals s @ map normals ms"
  by (induction ms arbitrary: s) (simp_all add: merge_step_sel)

lemma foldl_merge_step_colors:
  "all_colors (foldl merge_step s ms) = all_colors s @ map colors ms"
  by (induction ms arbitrary: s) (simp_all add: merge_step_sel)

lemma start_offset_snoc:
  "k \<le> length ms \<Longrightarrow> start_offset (ms @ [m]) k = start_offset ms k"
  by (simp add: start_offset_def)

lemma start_offset_length: "start_offset ms (length ms) = sum_list (map vertex_count ms)"
  by (simp add: start_offset_def)

lemma shifted_snoc: "k < length ms \<Longrightarrow> shifted base (ms @ [m]) k = shifted base ms k"
  by (simp add: shifted_def start_offset_snoc nth_append)

lemma foldl_merge_step_indices:
  "all_indices (foldl merge_step s ms)
     = all_indices s @ map (shifted (index_offset s) ms) [0..<length ms]"
proof (induction ms rule: rev_induct)
  case Nil
  then show ?case by simp
next
  case (snoc m ms)
  have "map (shifted (index_offset s) (ms @ [m])) [0..<length ms]
          = map (shifted (index_offset s) ms) [0..<length ms]"
    by (rule map_cong) (simp_all add: shifted_snoc)
  moreover have "shifted (index_offset s) (ms @ [m]) (length ms)
          = map (\<lambda>i. i + of_nat (index_offset (foldl merge_step s ms))) (indices m)"
    by (simp add: shifted_def index_offset_foldl start_offset_snoc start_offset_length)
  ultimately show ?case
    using snoc by (simp add: merge_step_sel)
qed

lemma merge_meshes_Inr:
  assumes "ms \<noteq> []"
  shows "merge_meshes ms =
           Inr \<lparr>positions = concat (map positions ms),
                normals = concat (map normals ms),
                colors = concat (map colors ms),
                indices = concat (map (shifted 0 ms) [0..<length ms])\<rparr>"
  using assms
  by (simp add: merge_meshes_def Let_def vstack_def hstack_def foldl_merge_step_positions
        foldl_merge_step_normals foldl_merge_step_colors foldl_merge_step_indices merge_init_def)

lemma merge_meshes_Nil: "merge_meshes [] = Inl ValueError"
  by (simp add: merge_meshes_def merge_init_def vstack_def)

lemma unat_add_of_nat_le: "unat ((i :: u32) + of_nat n) \<le> unat i + n"
proof -
  have "unat (i + of_nat n) \<le> unat i + unat (of_nat n :: u32)"
    by (simp add: unat_word_ariths)
  moreover have "unat (of_nat n :: u32) \<le> n"
    by (simp add: unat_of_nat)
  ultimately show ?thesis by linarith
qed

lemma unat_add_of_nat_exact:
  "unat i + n < 2 ^ 32 \<Longrightarrow> unat ((i :: u32) + of_nat n) = unat i + n"
  by (simp add: unat_word_ariths unat_of_nat)

lemma start_offset_Suc:
  "k < length ms \<Longrightarrow> start_offset ms (Suc k) = start_offset ms k + vertex_count (ms ! k)"
  by (simp add: start_offset_def take_Suc_conv_app_nth)

lemma start_offset_mono: "start_offset ms k \<le> sum_list (map vertex_count ms)"
proof -
  have "sum_list (map vertex_count ms) = sum_list (map vertex_count (take k ms)) + sum_list (map vertex_count (drop k ms))"
    by (metis append_take_drop_id map_append sum_list.append)
  then show ?thesis by (simp add: start_offset_def)
qed

lemma start_offset_Suc_le:
  "k < length ms \<Longrightarrow> start_offset ms k + vertex_count (ms ! k) \<le> sum_list (map vertex_count ms)"
  using start_offset_mono[of ms "Suc k"] by (simp add: start_offset_Suc)

lemma length_concat_positions: "length (concat (map positions ms)) = sum_list (map vertex_count ms)"
  by (induction ms) (simp_all add: vertex_count_def)

lemma triangles_append:
  "length xs mod 3 = 0 \<Longrightarrow> triangles (xs @ ys) = triangles xs @ triangles ys"
  by (induction xs rule: triangles.induct) simp_all

lemma triangles_members:
  "(a, b, c) \<in> set (triangles xs) \<Longrightarrow> a \<in> set xs \<and> b \<in> set xs \<and> c \<in> set xs"
  by (induction xs rule: triangles.induct) auto

lemma triangles_concat:
  "(\<And>b. b \<in> set bs \<Longrightarrow> length b mod 3 = 0) \<Longrightarrow>
     triangles (concat bs) = concat (map triangles bs)"
  by (induction bs) (simp_all add: triangles_append)

lemma length_triangles: "length (triangles xs) = length xs div 3"
  by (induction xs rule: triangles.induct) simp_all


lemma well_formed_index:
  "well_formed m \<Longrightarrow> i \<in> set (indices m) \<Longrightarrow> unat i < vertex_count m"
  unfolding well_formed_def vertex_count_def by blast

lemma shifted_in_range:
  assumes k: "k < length ms" and wf: "well_formed (ms ! k)"
      and bound: "sum_list (map vertex_count ms) \<le> 2 ^ 32"
      and x: "x \<in> set (shifted 0 ms k)"
  shows "start_offset ms k \<le> unat x \<and> unat x < start_offset ms k + vertex_count (ms ! k)"
proof -
  from x obtain i where i: "i \<in> set (indices (ms ! k))" and xi: "x = i + of_nat (start_offset ms k)"
    by (auto simp: shifted_def)
  from wf i have lt: "unat i < vertex_count (ms ! k)"
    by (rule well_formed_index)
  with start_offset_Suc_le[OF k] bound have "unat i + start_offset ms k < 2 ^ 32"
    by linarith
  then have "unat x = unat i + start_offset ms k"
    unfolding xi by (rule unat_add_of_nat_exact)
  with lt show ?thesis by simp
qed

lemma map_unat_shifted:
  assumes k: "k < length ms" and wf: "well_formed (ms ! k)"
      and bound: "sum_list (map vertex_count ms) \<le> 2 ^ 32"
  shows "map unat (shifted 0 ms k) = offset_indices ms k"
proof -
  have "unat (i + of_nat (start_offset ms k)) = unat i + start_offset ms k"
    if "i \<in> set (indices (ms ! k))" for i
  proof -
    from wf that have "unat i < vertex_count (ms ! k)"
      by (rule well_formed_index)
    with start_offset_Suc_le[OF k] bound have "unat i + start_offset ms k < 2 ^ 32"
      by linarith
    then show ?thesis by (rule unat_add_of_nat_exact)
  qed
  then show ?thesis
    by (simp add: shifted_def offset_indices_def)
qed

lemma shifted_upper:
  assumes k: "k < length ms" and wf: "well_formed (ms ! k)"
      and x: "x \<in> set (shifted 0 ms k)"
  shows "unat x < sum_list (map vertex_count ms)"
proof -
  from x obtain i where i: "i \<in> set (indices (ms ! k))" and xi: "x = i + of_nat (start_offset ms k)"
    by (auto simp: shifted_def)
  from wf i have lt: "unat i < vertex_count (ms ! k)"
    by (rule well_formed_index)
  have "unat x \<le> unat i + start_offset ms k"
    unfolding xi by (rule unat_add_of_nat_le)
  with lt start_offset_Suc_le[OF k] show ?thesis by linarith
qed

lemma length_shifted: "length (shifted b ms k) = length (indices (ms ! k))"
  by (simp add: shifted_def)

lemma sum_list_mod3:
  "(\<And>x. x \<in> set xs \<Longrightarrow> f x mod 3 = (0::nat)) \<Longrightarrow> sum_list (map f xs) mod 3 = 0"
  by (induction xs) (simp_all add: mod_add_eq[symmetric] del: mod_add_eq)

lemma length_concat_map_fields:
  "list_all well_formed ms \<Longrightarrow>
     length (concat (map normals ms)) = sum_list (map vertex_count ms)
   \<and> length (concat (map colors ms)) = sum_list (map vertex_count ms)"
  by (induction ms) (simp_all add: well_formed_def vertex_count_def)

lemma merge_meshes_well_formed:
  assumes "list_all well_formed ms" and "merge_meshes ms = Inr m"
  shows "well_formed m"
proof -
  from assms(2) have ne: "ms \<noteq> []" by (auto simp: merge_meshes_Nil)
  from assms(2) have m: "m = \<lparr>positions = concat (map positions ms),
                normals = concat (map normals ms),
                colors = concat (map colors ms),
                indices = concat (map (shifted 0 ms) [0..<length ms])\<rparr>"
    by (simp add: merge_meshes_Inr[OF ne])
  have wfk: "well_formed (ms ! k)" if "k < length ms" for k
    using assms(1) that by (simp add: list_all_length)
  have "length (indices m) = sum_list (map (\<lambda>k. length (indices (ms ! k))) [0..<length ms])"
    by (simp add: m length_concat comp_def length_shifted)
  moreover have "sum_list (map (\<lambda>k. length (indices (ms ! k))) [0..<length ms]) mod 3 = 0"
    by (rule sum_list_mod3) (use wfk in \<open>simp add: well_formed_def\<close>)
  ultimately have a: "length (indices m) mod 3 = 0" by simp
  have b: "unat x < length (positions m)" if "x \<in> set (indices m)" for x
  proof -
    from that obtain k where "k < length ms" "x \<in> set (shifted 0 ms k)"
      by (auto simp: m)
    then have "unat x < sum_list (map vertex_count ms)"
      using shifted_upper wfk by blast
    then show ?thesis by (simp add: m length_concat_positions)
  qed
  from a b length_concat_map_fields[OF assms(1)] show ?thesis
    by (simp add: well_formed_def m length_concat_positions)
qed

subsection \<open>The builders\<close>

lemma length_py_range: "length (py_range n) = nat n"
  by (simp add: py_range_def)

lemma set_py_range: "set (py_range n) = {0..<n}"
  by (auto simp: py_range_def)

lemma length_concat_const:
  "(\<And>x. x \<in> set xs \<Longrightarrow> length (f x) = k) \<Longrightarrow> length (concat (map f xs)) = k * length xs"
  by (induction xs) auto

lemma unat_word_of_int_le: "0 \<le> i \<Longrightarrow> unat (word_of_int i :: u32) \<le> nat i"
proof -
  assume "0 \<le> i"
  have "unat (word_of_int i :: u32) = nat (i mod 2 ^ 32)"
    by (simp add: unat_eq_nat_uint uint_word_of_int)
  moreover have "i mod 2 ^ 32 \<le> i"
    using \<open>0 \<le> i\<close> by (simp add: zmod_le_nonneg_dividend)
  ultimately show ?thesis by simp
qed

lemma np_arrays_well_formed:
  assumes "length idx mod 3 = 0" and "\<And>i. i \<in> set idx \<Longrightarrow> 0 \<le> i \<and> i < int (length verts)"
  shows "well_formed (np_arrays verts idx)"
proof -
  have "unat (word_of_int i :: u32) < length verts" if "i \<in> set idx" for i
    using assms(2)[OF that] unat_word_of_int_le[of i] by linarith
  with assms(1) show ?thesis
    by (auto simp: well_formed_def np_arrays_def)
qed

lemma create_box_well_formed: "well_formed (create_box w h d color origin)"
  by (cases origin) (simp add: create_box_def well_formed_def Let_def)

lemma create_cylinder_well_formed:
  assumes "3 \<le> N"
  shows "well_formed (create_cylinder radius height N color origin top_radius)"
proof -
  obtain ox oy oz where o: "origin = (ox, oy, oz)" by (cases origin)
  have n: "0 < N" using assms by simp
  have m: "0 \<le> (x + 1) mod N \<and> (x + 1) mod N < N" for x
    using n by simp
  show ?thesis
    unfolding create_cylinder_def o prod.case Let_def
  proof (rule np_arrays_well_formed, goal_cases)
    case 1
    then show ?case
      by (simp add: length_concat_const[where k=3] length_concat_const[where k=6])
  next
    case (2 i)
    then show ?case
      using n
      apply (simp add: length_concat_const[where k=2] length_py_range set_py_range)
      apply (elim disjE bexE)
               apply simp_all
      subgoal for x using m[of x] by linarith
      subgoal for x using m[of x] by linarith
      subgoal for x using m[of x] by linarith
      subgoal for x using m[of x] by linarith
      done
  qed
qed


lemma create_cone_well_formed:
  assumes "3 \<le> N" and "height \<noteq> 0"
  shows "\<exists>m. create_cone radius height N color origin = Inr m \<and> well_formed m"
proof -
  obtain ox oy oz where o: "origin = (ox, oy, oz)" by (cases origin)
  have n: "0 < N" using assms by simp
  have m: "0 \<le> (x + 1) mod N \<and> (x + 1) mod N < N" for x
    using n by simp
  show ?thesis
    unfolding create_cone_def o prod.case Let_def if_not_P[OF assms(2)]
  proof (intro exI conjI, rule refl, rule np_arrays_well_formed, goal_cases)
    case 1
    then show ?case
      by (simp add: length_concat_const[where k=3])
  next
    case (2 i)
    then show ?case
      using n
      apply (simp add: length_py_range set_py_range)
      apply (elim disjE bexE)
               apply simp_all
      subgoal for x using m[of x] by linarith
      done
  qed
qed

lemma grid_index_bound:
  assumes "0 \<le> i" "i < R" "0 \<le> j" "j < (S::int)"
  shows "0 \<le> i * S + j \<and> i * S + j < R * S"
proof -
  have "i * S \<le> (R - 1) * S"
    using assms by (intro mult_right_mono) auto
  then have "i * S + j < (R - 1) * S + S" using assms by linarith
  moreover have "(R - 1) * S + S = R * S" by (simp add: algebra_simps)
  moreover have "0 \<le> i * S" using assms by simp
  ultimately show ?thesis using assms by simp
qed

lemma length_concat_map_map:
  "length (concat (map (\<lambda>i. map (f i) ys) xs)) = length xs * length ys"
  by (induction xs) auto

lemma create_torus_well_formed:
  assumes "3 \<le> segments" and "3 \<le> rings"
  shows "well_formed (create_torus outer_r inner_r segments rings color origin)"
proof -
  obtain ox oy oz where o: "origin = (ox, oy, oz)" by (cases origin)
  have s: "0 < segments" and r: "0 < rings" using assms by simp_all
  have ms: "0 \<le> (x + 1) mod segments \<and> (x + 1) mod segments < segments" for x
    using s by simp
  have mr: "0 \<le> (x + 1) mod rings \<and> (x + 1) mod rings < rings" for x
    using r by simp
  have len: "int (nat rings * nat segments) = rings * segments"
    using s r by simp
  have cell: "0 \<le> k \<and> k < rings * segments"
    if "0 \<le> i" "i < rings" "0 \<le> j" "j < segments"
       "k \<in> set [i * segments + j, ((i + 1) mod rings) * segments + j,
                 i * segments + ((j + 1) mod segments),
                 ((i + 1) mod rings) * segments + j,
                 ((i + 1) mod rings) * segments + ((j + 1) mod segments),
                 i * segments + ((j + 1) mod segments)]" for i j k
    using that grid_index_bound[of i rings j segments]
      grid_index_bound[of "(i + 1) mod rings" rings j segments]
      grid_index_bound[of i rings "(j + 1) mod segments" segments]
      grid_index_bound[of "(i + 1) mod rings" rings "(j + 1) mod segments" segments]
      ms[of j] mr[of i]
    by auto
  show ?thesis
    unfolding create_torus_def o prod.case Let_def
  proof (rule np_arrays_well_formed, goal_cases)
    case 1
    have "length (concat (map (\<lambda>j. [g1 i j, g2 i j, g3 i j, g4 i j, g5 i j, g6 i j]) ys)) = 6 * length ys"
      for g1 g2 g3 g4 g5 g6 :: "int \<Rightarrow> int \<Rightarrow> int" and i ys
      by (rule length_concat_const) simp
    then show ?case
      by (simp add: length_concat sum_list_mod3 comp_def)
  next
    case (2 k)
    then obtain i j where "0 \<le> i" "i < rings" "0 \<le> j" "j < segments"
       "k \<in> set [i * segments + j, ((i + 1) mod rings) * segments + j,
                 i * segments + ((j + 1) mod segments),
                 ((i + 1) mod rings) * segments + j,
                 ((i + 1) mod rings) * segments + ((j + 1) mod segments),
                 i * segments + ((j + 1) mod segments)]"
      by (auto simp: set_py_range)
    then have "0 \<le> k \<and> k < rings * segments" by (rule cell)
    then show ?case using r s
      by (simp add: length_concat_map_map length_py_range)
  qed
qed

lemma create_half_cylinder_well_formed:
  assumes "2 \<le> N"
  shows "\<exists>m. create_half_cylinder radius height N color origin axis = Inr m \<and> well_formed m"
proof -
  obtain ox oy oz where o: "origin = (ox, oy, oz)" by (cases origin)
  from assms have h: "N div 2 \<noteq> 0" "0 < N div 2" by auto
  have idx: "0 \<le> i \<and> i < int (2 * nat (N div 2 + 1))"
    if "i \<in> set (concat (map (\<lambda>i. [i * 2, (i + 1) * 2, i * 2 + 1, i * 2 + 1, (i + 1) * 2, (i + 1) * 2 + 1])
                            (py_range (N div 2))))" for i
    using that h by (auto simp: set_py_range)
  show ?thesis
  proof (cases "axis = ''x''")
    case True
    show ?thesis
      unfolding create_half_cylinder_def o prod.case Let_def if_not_P[OF h(1)] if_P[OF True]
    proof (intro exI conjI, rule refl, rule np_arrays_well_formed, goal_cases)
      case 1
      then show ?case by (simp add: length_concat_const[where k=6])
    next
      case (2 i)
      then show ?case using idx[of i]
        by (simp add: length_concat_const[where k=2] length_py_range)
    qed
  next
    case False
    show ?thesis
      unfolding create_half_cylinder_def o prod.case Let_def if_not_P[OF h(1)] if_not_P[OF False]
    proof (intro exI conjI, rule refl, rule np_arrays_well_formed, goal_cases)
      case 1
      then show ?case by (simp add: length_concat_const[where k=6])
    next
      case (2 i)
      then show ?case using idx[of i]
        by (simp add: length_concat_const[where k=2] length_py_range)
    qed
  qed
qed

subsection \<open>Offsets and the meshes of the examples\<close>

lemma start_offset_le:
  assumes "j < k" "k \<le> length ms"
  shows "start_offset ms j + vertex_count (ms ! j) \<le> start_offset ms k"
proof -
  have "take k ms = take (Suc j) ms @ drop (Suc j) (take k ms)"
    using assms by (metis Suc_leI append_take_drop_id min.absorb2 take_take min.commute)
  then have "start_offset ms k = start_offset ms (Suc j) + sum_list (map vertex_count (drop (Suc j) (take k ms)))"
    unfolding start_offset_def by (metis map_append sum_list.append)
  then show ?thesis
    using assms by (simp add: start_offset_Suc)
qed

lemma create_box_vertex_count: "vertex_count (create_box w h d color origin) = 24"
  by (cases origin) (simp add: create_box_def vertex_count_def Let_def)

lemma create_cylinder_vertex_count:
  "0 \<le> N \<Longrightarrow> vertex_count (create_cylinder radius height N color origin top_radius) = nat (4 * N + 2)"
  by (cases origin)
     (simp add: create_cylinder_def np_arrays_def vertex_count_def Let_def length_py_range
        length_concat_const[where k=2])

subsection \<open>Two square roots\<close>

lemma sqrt_25_16: "sqrt (25 / 16) = 5 / 4"
  by (rule real_sqrt_unique) (simp_all add: power2_eq_square)

lemma sqrt_16_25: "sqrt (16 / 25) = 4 / 5"
  by (rule real_sqrt_unique) (simp_all add: power2_eq_square)

subsection \<open>Padding, bytes and bounds\<close>

lemma next_multiple_of_4:
  fixes n :: nat
  shows "n + (4 - n mod 4) mod 4 = 4 * ((n + 3) div 4)"
proof -
  define q r where "q = n div 4" and "r = n mod 4"
  have n: "n = 4 * q + r" and r: "r < 4"
    by (simp_all add: q_def r_def)
  from r consider "r = 0" | "r = 1" | "r = 2" | "r = 3" by linarith
  then have "(r + 3) div 4 = (if r = 0 then 0 else 1) \<and> (4 - r) mod 4 = (if r = 0 then 0 else 4 - r)"
    by cases simp_all
  moreover have "(n + 3) div 4 = q + (r + 3) div 4"
    unfolding n by (simp add: add.assoc)
  ultimately show ?thesis
    using r unfolding r_def[symmetric] by (simp add: n)
qed

lemma pad_to_4_spec: "pad_to_4 d = zero_pad_to_multiple_of_4 d"
proof -
  have "(4 - length d mod 4) mod 4 = 4 * ((length d + 3) div 4) - length d"
    using next_multiple_of_4[of "length d"] by linarith
  then show ?thesis
    by (simp add: pad_to_4_def zero_pad_to_multiple_of_4_def)
qed

lemma length_zero_pad:
  "length (zero_pad_to_multiple_of_4 d) = 4 * ((length d + 3) div 4)"
  using next_multiple_of_4[of "length d"] by (simp add: zero_pad_to_multiple_of_4_def)

lemma zero_pad_least:
  "length (zero_pad_to_multiple_of_4 d) mod 4 = 0
 \<and> length d \<le> length (zero_pad_to_multiple_of_4 d)
 \<and> length (zero_pad_to_multiple_of_4 d) < length d + 4"
proof -
  have "(4 - length d mod 4) mod 4 < 4" by simp
  then show ?thesis
    unfolding length_zero_pad using next_multiple_of_4[of "length d"] by simp
qed

lemma take_zero_pad: "take (length d) (zero_pad_to_multiple_of_4 d @ rest) = d"
  by (simp add: zero_pad_to_multiple_of_4_def)

lemma u32_of_bytes_u32_bytes: "u32_of_bytes (u32_bytes w) = w"
proof (rule bit_word_eqI)
  fix n :: nat
  assume n: "n < LENGTH(32)"
  then have n32: "n < 32" by simp
  consider "n < 8" | "8 \<le> n" "n < 16" | "16 \<le> n" "n < 24" | "24 \<le> n" "n < 32"
    using n32 by linarith
  then show "bit (u32_of_bytes (u32_bytes w)) n = bit w n"
  proof cases
    case 1
    then show ?thesis
      by (simp add: u32_of_bytes_def u32_bytes_def bit_simps)
  next
    case 2
    then have "8 + (n - 8) = n" by simp
    with 2 show ?thesis
      by (simp add: u32_of_bytes_def u32_bytes_def bit_simps)
  next
    case 3
    then have "16 + (n - 16) = n" "n - 8 - 8 = n - 16" "\<not> n - 8 < 8" "n - 16 < 8" "\<not> n < 8"
      by simp_all
    with 3 show ?thesis
      by (auto simp add: u32_of_bytes_def u32_bytes_def bit_simps)
  next
    case 4
    then have "24 + (n - 24) = n" "n - 8 - 8 - 8 = n - 24" "\<not> n - 8 < 8" "\<not> n - 16 < 8" "n - 8 - 8 = n - 16"
        "n - 24 < 8" "\<not> n < 8"
      by simp_all
    with 4 show ?thesis
      by (auto simp add: u32_of_bytes_def u32_bytes_def bit_simps)
  qed
qed

lemma length_u32_bytes: "length (u32_bytes w) = 4"
  by (simp add: u32_bytes_def)

lemma length_tobytes_u32: "length (tobytes_u32 xs) = 4 * length xs"
  by (induction xs) (simp_all add: tobytes_u32_def length_u32_bytes)

lemma fold_min_axis0:
  fixes a b c :: real
  shows "fold (\<lambda>(x, y, z) (a, b, c). (min a x, min b y, min c z)) rest (a, b, c)
     = (fold min (map fst rest) a, fold min (map (fst \<circ> snd) rest) b, fold min (map (snd \<circ> snd) rest) c)"
proof (induction rest arbitrary: a b c)
  case Nil
  then show ?case by simp
next
  case (Cons r rest)
  obtain x y z where r: "r = (x, y, z)" by (cases r)
  show ?case
    by (simp add: r Cons.IH min.commute[of x a] min.commute[of y b] min.commute[of z c])
qed

lemma fold_max_axis0:
  fixes a b c :: real
  shows "fold (\<lambda>(x, y, z) (a, b, c). (max a x, max b y, max c z)) rest (a, b, c)
     = (fold max (map fst rest) a, fold max (map (fst \<circ> snd) rest) b, fold max (map (snd \<circ> snd) rest) c)"
proof (induction rest arbitrary: a b c)
  case Nil
  then show ?case by simp
next
  case (Cons r rest)
  obtain x y z where r: "r = (x, y, z)" by (cases r)
  show ?case
    by (simp add: r Cons.IH max.commute[of x a] max.commute[of y b] max.commute[of z c])
qed

lemma Min_image_fold: "Min (f ` set (r # rest)) = fold min (map f rest) (f r :: real)"
proof -
  have "f ` set (r # rest) = set (f r # map f rest)" by simp
  then show ?thesis by (simp only: Min.set_eq_fold)
qed

lemma Max_image_fold: "Max (f ` set (r # rest)) = fold max (map f rest) (f r :: real)"
proof -
  have "f ` set (r # rest) = set (f r # map f rest)" by simp
  then show ?thesis by (simp only: Max.set_eq_fold)
qed

lemma min_axis0_exact:
  assumes "rows \<noteq> []"
  shows "min_axis0 rows = Inr (Min (fst ` set rows), Min ((fst \<circ> snd) ` set rows), Min ((snd \<circ> snd) ` set rows))"
proof -
  from assms obtain r rest where rows: "rows = r # rest" by (cases rows) auto
  obtain a b c where r: "r = (a, b, c)" by (cases r)
  show ?thesis
    unfolding rows Min_image_fold
    by (simp add: min_axis0_def r fold_min_axis0)
qed

lemma max_axis0_exact:
  assumes "rows \<noteq> []"
  shows "max_axis0 rows = Inr (Max (fst ` set rows), Max ((fst \<circ> snd) ` set rows), Max ((snd \<circ> snd) ` set rows))"
proof -
  from assms obtain r rest where rows: "rows = r # rest" by (cases rows) auto
  obtain a b c where r: "r = (a, b, c)" by (cases r)
  show ?thesis
    unfolding rows Max_image_fold
    by (simp add: max_axis0_def r fold_max_axis0)
qed

subsection \<open>Rounding to 32-bit floats\<close>

lemma floor_log2:
  assumes "2 powr of_int e \<le> y" and "y < 2 powr (of_int e + 1)"
  shows "\<lfloor>log 2 y\<rfloor> = e"
proof -
  have "0 < (2::real) powr of_int e" by simp
  with assms(1) have pos: "0 < y" by linarith
  have "of_int e \<le> log 2 y" using assms(1) pos by (simp add: le_log_iff)
  moreover have "log 2 y < of_int e + 1" using assms(2) pos by (simp add: log_less_iff)
  ultimately show ?thesis by (simp add: floor_eq_iff)
qed

lemma float32_minus: "float32 (- x) = - float32 x"
  by (simp add: float32_def Let_def sgn_minus)

lemma float32_in_binade:
  assumes "2 powr of_int e \<le> x" and "x < 2 powr (of_int e + 1)"
  shows "float32 x = of_int (round_half_even (x / 2 powr (of_int e - 23))) * 2 powr (of_int e - 23)"
proof -
  have "0 < (2::real) powr of_int e" by simp
  with assms(1) have pos: "0 < x" by linarith
  then have "\<lfloor>log 2 \<bar>x\<bar>\<rfloor> = e" using floor_log2[OF assms] by simp
  with pos show ?thesis by (simp add: float32_def Let_def)
qed

lemma float32_eval:
  assumes "2 powr of_int e \<le> x" and "x < 2 powr (of_int e + 1)"
      and "2 powr (of_int e - 23) = u" and "round_half_even (x / u) = k"
  shows "float32 x = of_int k * u"
  using float32_in_binade[OF assms(1,2)] assms(3,4) by simp

lemma powers_of_two:
  "(2::real) powr (- 2) = 1 / 4" "(2::real) powr (- 3) = 1 / 8"
  "(2::real) powr (- 4) = 1 / 16" "(2::real) powr (- 5) = 1 / 32"
  "(2::real) powr (- 26) = 1 / 67108864" "(2::real) powr (- 27) = 1 / 134217728"
  "(2::real) powr (- 28) = 1 / 268435456"
  by (simp_all add: powr_minus_divide)

lemma float32_0_14: "float32 0.14 = 9395241 / 67108864"
proof -
  have "float32 0.14 = of_int 9395241 * (1 / 67108864)"
    by (rule float32_eval[where e = "- 3"])
       (simp_all add: powers_of_two round_half_even_def Let_def)
  then show ?thesis by simp
qed

lemma float32_0_09: "float32 0.09 = 3019899 / 33554432"
proof -
  have "float32 0.09 = of_int 12079596 * (1 / 134217728)"
    by (rule float32_eval[where e = "- 4"])
       (simp_all add: powers_of_two round_half_even_def Let_def)
  then show ?thesis by simp
qed

lemma float32_0_05: "float32 0.05 = 13421773 / 268435456"
proof -
  have "float32 0.05 = of_int 13421773 * (1 / 268435456)"
    by (rule float32_eval[where e = "- 5"])
       (simp_all add: powers_of_two round_half_even_def Let_def)
  then show ?thesis by simp
qed

lemma powers_of_two_pos:
  "(2::real) powr (- 22) = 1 / 4194304" "(2::real) powr (- 21) = 1 / 2097152"
  by (simp_all add: powr_minus_divide)

lemma float32_2: "float32 2 = 2"
proof -
  have "float32 2 = of_int 8388608 * (1 / 4194304)"
    by (rule float32_eval[where e = 1])
       (simp_all add: powers_of_two_pos round_half_even_def Let_def)
  then show ?thesis by simp
qed

lemma float32_4: "float32 4 = 4"
proof -
  have "float32 4 = of_int 8388608 * (1 / 2097152)"
    by (rule float32_eval[where e = 2])
       (simp_all add: powers_of_two_pos round_half_even_def Let_def)
  then show ?thesis by simp
qed

lemma float32_6: "float32 6 = 6"
proof -
  have "float32 6 = of_int 12582912 * (1 / 2097152)"
    by (rule float32_eval[where e = 2])
       (simp_all add: powers_of_two_pos round_half_even_def Let_def)
  then show ?thesis by simp
qed

lemma float32_0: "float32 0 = 0"
  by (simp add: float32_def)

lemma float32_example:
  "float32 (7 / 50) = 9395241 / 67108864"
  "float32 (9 / 100) = 3019899 / 33554432"
  "float32 (1 / 20) = 13421773 / 268435456"
  "float32 (- (7 / 50)) = - (9395241 / 67108864)"
  "float32 (- (9 / 100)) = - (3019899 / 33554432)"
  "float32 (- (1 / 20)) = - (13421773 / 268435456)"
  using float32_0_14 float32_0_09 float32_0_05 by (simp_all add: float32_minus)

lemma float32_close:
  "\<bar>float32 0.14 - 0.14\<bar> < 1 / 10 ^ 8"
  "\<bar>float32 0.09 - 0.09\<bar> < 1 / 10 ^ 8"
  "\<bar>float32 0.05 - 0.05\<bar> < 1 / 10 ^ 8"
  by (simp_all add: float32_example)

subsection \<open>The byte strings of the arrays\<close>

lemma words_of_bytes_u32_bytes: "words_of_bytes (u32_bytes w @ rest) = w # words_of_bytes rest"
  using u32_of_bytes_u32_bytes[of w] by (simp add: u32_bytes_def)

lemma words_of_bytes_concat: "words_of_bytes (concat (map u32_bytes ws)) = ws"
  by (induction ws) (simp_all add: words_of_bytes_u32_bytes)

lemma words_of_bytes_tobytes_u32: "words_of_bytes (tobytes_u32 ws) = ws"
  by (simp add: tobytes_u32_def words_of_bytes_concat)

lemma tobytes_f32_patterns:
  "tobytes_f32 bits rows = concat (map u32_bytes (concat (map (\<lambda>(x, y, z). [bits x, bits y, bits z]) rows)))"
  by (induction rows) (auto simp: tobytes_f32_def)

lemma stored_patterns_astype:
  "concat (map (\<lambda>(x, y, z). [bits x, bits y, bits z]) (astype_float32 rows)) = stored_patterns bits rows"
  by (induction rows) (auto simp: astype_float32_def stored_patterns_def)

lemma words_of_bytes_tobytes_f32:
  "words_of_bytes (tobytes_f32 bits (astype_float32 rows)) = stored_patterns bits rows"
  by (simp only: tobytes_f32_patterns words_of_bytes_concat stored_patterns_astype)

lemma length_tobytes_f32: "length (tobytes_f32 bits rows) = 12 * length rows"
  by (induction rows) (auto simp: tobytes_f32_def length_u32_bytes)

lemma length_astype_float32: "length (astype_float32 rows) = length rows"
  by (simp add: astype_float32_def)

lemma astype_arrays_sel:
  "positions (astype_arrays m) = astype_float32 (positions m)"
  "normals (astype_arrays m) = astype_float32 (normals m)"
  "colors (astype_arrays m) = astype_float32 (colors m)"
  "indices (astype_arrays m) = indices m"
  by (simp_all add: astype_arrays_def)

subsection \<open>The document and the file\<close>

lemma glb_buffers_layout:
  "glb_buffers bits m =
     (zero_pad_to_multiple_of_4 (tobytes_f32 bits (positions m))
        @ zero_pad_to_multiple_of_4 (tobytes_f32 bits (normals m))
        @ zero_pad_to_multiple_of_4 (tobytes_f32 bits (colors m))
        @ zero_pad_to_multiple_of_4 (tobytes_u32 (indices m)),
      [\<lparr>buffer = 0, byteOffset = 0,
        byteLength = length (tobytes_f32 bits (positions m)), target = ARRAY_BUFFER\<rparr>,
       \<lparr>buffer = 0,
        byteOffset = length (zero_pad_to_multiple_of_4 (tobytes_f32 bits (positions m))),
        byteLength = length (tobytes_f32 bits (normals m)), target = ARRAY_BUFFER\<rparr>,
       \<lparr>buffer = 0,
        byteOffset = length (zero_pad_to_multiple_of_4 (tobytes_f32 bits (positions m)))
                   + length (zero_pad_to_multiple_of_4 (tobytes_f32 bits (normals m))),
        byteLength = length (tobytes_f32 bits (colors m)), target = ARRAY_BUFFER\<rparr>,
       \<lparr>buffer = 0,
        byteOffset = length (zero_pad_to_multiple_of_4 (tobytes_f32 bits (positions m)))
                   + length (zero_pad_to_multiple_of_4 (tobytes_f32 bits (normals m)))
                   + length (zero_pad_to_multiple_of_4 (tobytes_f32 bits (colors m))),
        byteLength = length (tobytes_u32 (indices m)), target = ELEMENT_ARRAY_BUFFER\<rparr>])"
  by (simp add: glb_buffers_def Let_def pad_to_4_spec)

lemma view_bytes_slices:
  "view_bytes (a @ b @ c @ d) \<lparr>buffer = 0, byteOffset = 0, byteLength = length p, target = t\<rparr>
     = take (length p) (a @ b @ c @ d)"
  "view_bytes (a @ b @ c @ d) \<lparr>buffer = 0, byteOffset = length a, byteLength = length p, target = t\<rparr>
     = take (length p) (b @ c @ d)"
  "view_bytes (a @ b @ c @ d) \<lparr>buffer = 0, byteOffset = length a + length b, byteLength = length p, target = t\<rparr>
     = take (length p) (c @ d)"
  "view_bytes (a @ b @ c @ d) \<lparr>buffer = 0, byteOffset = length a + length b + length c, byteLength = length p, target = t\<rparr>
     = take (length p) d"
  by (simp_all add: view_bytes_def)

lemma take_zero_pad_whole: "take (length d) (zero_pad_to_multiple_of_4 d) = d"
  by (simp add: zero_pad_to_multiple_of_4_def)

lemma glb_views_read_back:
  "map (view_bytes (fst (glb_buffers bits m))) (snd (glb_buffers bits m)) =
     [tobytes_f32 bits (positions m), tobytes_f32 bits (normals m),
      tobytes_f32 bits (colors m), tobytes_u32 (indices m)]"
  by (simp only: glb_buffers_layout fst_conv snd_conv list.map view_bytes_slices
        take_zero_pad take_zero_pad_whole)

lemma glb_accessors_Inr:
  assumes "positions m \<noteq> []"
  shows "glb_accessors m =
     Inr [\<lparr>bufferView = 0, componentType = FLOAT, count = length (positions m),
               accessor_type = ''VEC3'',
               accessor_min = Some (Min (fst ` set (positions m)), Min ((fst \<circ> snd) ` set (positions m)),
                                    Min ((snd \<circ> snd) ` set (positions m))),
               accessor_max = Some (Max (fst ` set (positions m)), Max ((fst \<circ> snd) ` set (positions m)),
                                    Max ((snd \<circ> snd) ` set (positions m)))\<rparr>,
              \<lparr>bufferView = 1, componentType = FLOAT, count = length (normals m),
               accessor_type = ''VEC3'', accessor_min = None, accessor_max = None\<rparr>,
              \<lparr>bufferView = 2, componentType = FLOAT, count = length (colors m),
               accessor_type = ''VEC3'', accessor_min = None, accessor_max = None\<rparr>,
              \<lparr>bufferView = 3, componentType = UNSIGNED_INT, count = length (indices m),
               accessor_type = ''SCALAR'', accessor_min = None, accessor_max = None\<rparr>]"
  by (simp add: glb_accessors_def Let_def min_axis0_exact[OF assms] max_axis0_exact[OF assms])

lemma glb_accessors_Nil: "positions m = [] \<Longrightarrow> glb_accessors m = Inl ValueError"
  by (simp add: glb_accessors_def min_axis0_def)

lemma glb_document_Inr:
  assumes "positions m \<noteq> []"
  shows "\<exists>accs. glb_accessors (astype_arrays m) = Inr accs
         \<and> glb_document bits m =
             Inr (\<lparr>buffer_byteLength = length (fst (glb_buffers bits (astype_arrays m))),
                   bufferViews = snd (glb_buffers bits (astype_arrays m)),
                   accessors = accs,
                   binary_blob = fst (glb_buffers bits (astype_arrays m))\<rparr>,
                  length (indices m) div 3)"
proof -
  from assms have "positions (astype_arrays m) \<noteq> []"
    by (simp add: astype_arrays_sel astype_float32_def)
  from glb_accessors_Inr[OF this] show ?thesis
    by (simp add: glb_document_def Let_def astype_arrays_sel split: prod.splits)
qed

lemma glb_document_Nil: "positions m = [] \<Longrightarrow> glb_document bits m = Inl ValueError"
  by (simp add: glb_document_def Let_def glb_accessors_Nil astype_arrays_sel astype_float32_def
        split: prod.splits)

lemma glb_document_bounds:
  assumes "positions m \<noteq> []"
  shows "\<exists>g. glb_document bits m = Inr (g, length (indices m) div 3)
     \<and> count (accessors g ! 0) = length (positions m)
     \<and> accessor_min (accessors g ! 0) =
         Some (Min (fst ` set (astype_float32 (positions m))),
               Min ((fst \<circ> snd) ` set (astype_float32 (positions m))),
               Min ((snd \<circ> snd) ` set (astype_float32 (positions m))))
     \<and> accessor_max (accessors g ! 0) =
         Some (Max (fst ` set (astype_float32 (positions m))),
               Max ((fst \<circ> snd) ` set (astype_float32 (positions m))),
               Max ((snd \<circ> snd) ` set (astype_float32 (positions m))))"
proof -
  from assms have ne: "positions (astype_arrays m) \<noteq> []"
    by (simp add: astype_arrays_sel astype_float32_def)
  have sel: "positions (astype_arrays m) = astype_float32 (positions m)"
      "indices (astype_arrays m) = indices m"
    by (simp_all add: astype_arrays_sel)
  show ?thesis
    using glb_accessors_Inr[OF ne]
    by (simp add: glb_document_def Let_def sel length_astype_float32 split: prod.splits)
qed

lemma example_box_counts:
  "length (positions example_box) = 24" "length (indices example_box) = 36"
  by (simp_all add: example_box_def create_box_def Let_def)

lemma example_box_min:
  "min_axis0 (positions (astype_arrays example_box)) =
     Inr (- (9395241 / 67108864), - (3019899 / 33554432), - (13421773 / 268435456))"
  by (simp add: example_box_def create_box_def Let_def astype_arrays_sel astype_float32_def
        min_axis0_def float32_example)

lemma example_box_max:
  "max_axis0 (positions (astype_arrays example_box)) =
     Inr (9395241 / 67108864, 3019899 / 33554432, 13421773 / 268435456)"
  by (simp add: example_box_def create_box_def Let_def astype_arrays_sel astype_float32_def
        max_axis0_def float32_example)


lemma create_glb_document:
  assumes "glb_document bits m = Inr (g, t)"
  shows "create_glb bits chunks None fs m path = (fs(path \<mapsto> glb_file chunks g), Inr t)"
    and "create_glb bits chunks (Some OpenFails) fs m path = (fs, Inl OSError)"
    and "create_glb bits chunks (Some (WriteFailsAfter k)) fs m path
           = (fs(path \<mapsto> take k (glb_file chunks g)), Inl OSError)"
  using assms by (simp_all add: create_glb_def save_def)

lemma create_glb_no_document:
  "glb_document bits m = Inl e \<Longrightarrow> create_glb bits chunks fault fs m path = (fs, Inl e)"
  by (simp add: create_glb_def)

lemma create_glb_other_paths:
  "q \<noteq> path \<Longrightarrow> fst (create_glb bits chunks fault fs m path) q = fs q"
  by (auto simp: create_glb_def save_def split: sum.splits prod.splits option.splits storage_fault.splits)

lemma create_glb_fault_raises:
  "fault \<noteq> None \<Longrightarrow> \<exists>e. snd (create_glb bits chunks fault fs m path) = Inl e"
  by (auto simp: create_glb_def save_def split: sum.splits prod.splits option.splits storage_fault.splits)

lemma length_glb_file: "length (glb_file chunks g) = 12 + length (chunks g)"
  by (simp add: glb_file_def length_u32_bytes)

lemma glb_file_magic: "take 4 (glb_file chunks g) = [0x67, 0x6C, 0x54, 0x46]"
  by (simp add: glb_file_def u32_bytes_def)

lemma example_box_document:
  "\<exists>g. glb_document bits example_box = Inr (g, 12)
     \<and> count (accessors g ! 0) = 24
     \<and> accessor_min (accessors g ! 0) =
         Some (- (9395241 / 67108864), - (3019899 / 33554432), - (13421773 / 268435456))
     \<and> accessor_max (accessors g ! 0) =
         Some (9395241 / 67108864, 3019899 / 33554432, 13421773 / 268435456)"
proof -
  have len: "length (positions (astype_arrays example_box)) = 24"
      "length (indices (astype_arrays example_box)) = 36"
    by (simp_all add: astype_arrays_sel length_astype_float32 example_box_counts)
  show ?thesis
    by (simp add: glb_document_def glb_accessors_def Let_def example_box_min example_box_max len
          split: prod.splits)
qed

section \<open>Claims\<close>

subsection \<open>Vertex and index counts\<close>

text \<open>
  C6. For every segment count \<open>N \<ge> 3\<close>, any radius, height, colour and origin, and any
  optional top radius, \<^verbatim>\<open>create_cylinder\<close> returns exactly \<open>4 N + 2\<close> vertices (in each
  of the three vertex arrays) and exactly \<open>12 N\<close> indices, that is \<open>4 N\<close> triangles.
\<close>

theorem create_cylinder_counts:
  assumes "3 \<le> N"
  shows "int (length (positions (create_cylinder radius height N color origin top_radius))) = 4 * N + 2
       \<and> int (length (normals (create_cylinder radius height N color origin top_radius))) = 4 * N + 2
       \<and> int (length (colors (create_cylinder radius height N color origin top_radius))) = 4 * N + 2
       \<and> int (length (indices (create_cylinder radius height N color origin top_radius))) = 12 * N
       \<and> int (length (triangles (indices (create_cylinder radius height N color origin top_radius)))) = 4 * N"
  using assms
  by (cases origin)
     (simp add: create_cylinder_def np_arrays_def Let_def length_py_range length_triangles
        length_concat_const[where k=2] length_concat_const[where k=3] length_concat_const[where k=6])

theorem create_cylinder_counts_witness:
  "int (length (positions (create_cylinder 1 2 6 (1, 0, 0) (0, 0, 0) None))) = 26
 \<and> int (length (indices (create_cylinder 1 2 6 (1, 0, 0) (0, 0, 0) (Some (1/2))))) = 72"
  using create_cylinder_counts[of 6 1 2 "(1, 0, 0)" "(0, 0, 0)" None]
        create_cylinder_counts[of 6 1 2 "(1, 0, 0)" "(0, 0, 0)" "Some (1/2)"]
  by simp

text \<open>
  C10. \<^verbatim>\<open>create_half_cylinder\<close> uses only \<^verbatim>\<open>segments // 2\<close>: for every \<open>N \<ge> 2\<close>
  it returns \<open>2 (\<lfloor>N / 2\<rfloor> + 1)\<close> vertices and \<open>6 \<lfloor>N / 2\<rfloor>\<close> indices, and for an even
  \<open>N\<close> the calls with \<open>N\<close> and with \<open>N + 1\<close> segments return the same arrays.
\<close>

theorem create_half_cylinder_floor:
  assumes "2 \<le> N"
  shows "(\<exists>m. create_half_cylinder radius height N color origin axis = Inr m
            \<and> int (length (positions m)) = 2 * (N div 2 + 1)
            \<and> int (length (indices m)) = 6 * (N div 2))
       \<and> (even N \<longrightarrow> create_half_cylinder radius height (N + 1) color origin axis
                      = create_half_cylinder radius height N color origin axis)"
proof -
  from assms have h: "N div 2 \<noteq> 0" "0 \<le> N div 2" by auto
  have "even N \<Longrightarrow> (N + 1) div 2 = N div 2" by presburger
  with h show ?thesis
    by (cases origin)
       (simp add: create_half_cylinder_def np_arrays_def Let_def length_py_range
          length_concat_const[where k=2] length_concat_const[where k=6])
qed

theorem create_half_cylinder_floor_witness:
  "(\<exists>m. create_half_cylinder (18/1000) (1/10) 8 (1, 0, 0) (0, 0, 0) ''z'' = Inr m
            \<and> int (length (positions m)) = 10
            \<and> int (length (indices m)) = 24)
       \<and> create_half_cylinder (18/1000) (1/10) 9 (1, 0, 0) (0, 0, 0) ''z''
                      = create_half_cylinder (18/1000) (1/10) 8 (1, 0, 0) (0, 0, 0) ''z''"
  using create_half_cylinder_floor[of 8 "18/1000" "1/10" "(1, 0, 0)" "(0, 0, 0)" "''z''"]
  by simp

subsection \<open>Merging the empty list\<close>

text \<open>
  C4, as stated, fails: on the empty list the loop leaves the four lists of arrays empty
  and \<^verbatim>\<open>np.vstack\<close> raises \<^verbatim>\<open>ValueError\<close>; no buffers are returned.
\<close>

theorem merge_meshes_empty_counterexample: "merge_meshes [] = Inl ValueError"
  by (simp add: merge_meshes_def merge_init_def vstack_def)

text \<open>
  C4, amended. \<^verbatim>\<open>merge_meshes\<close> applied to the empty list of primitive outputs does
  not succeed: it raises \<^verbatim>\<open>ValueError\<close>, and whenever it returns buffers the list was
  not empty.
\<close>

theorem merge_meshes_empty_raises:
  "(ms = [] \<longrightarrow> merge_meshes ms = Inl ValueError)
 \<and> ((\<exists>m. merge_meshes ms = Inr m) \<longrightarrow> ms \<noteq> [])"
  by (cases "ms = []") (simp_all add: merge_meshes_Nil)

theorem merge_meshes_empty_raises_witness:
  "merge_meshes [] = Inl ValueError
 \<and> (\<exists>m. merge_meshes [create_box 1 1 1 (1, 0, 0) (0, 0, 0)] = Inr m)
 \<and> [create_box 1 1 1 (1, 0, 0) (0, 0, 0)] \<noteq> []"
  using merge_meshes_empty_raises[of "[]"]
        merge_meshes_empty_raises[of "[create_box 1 1 1 (1, 0, 0) (0, 0, 0)]"]
  by (simp add: merge_meshes_Inr)

subsection \<open>The invariant of primitive outputs\<close>

text \<open>
  C2. With segment and ring counts of at least 3 and a positive height, the output of every
  builder (box, cylinder, cone, half-cylinder, torus) is well formed: the number of indices
  is divisible by 3, every index is smaller than the number of positions, and positions,
  normals and colours have one length. \<^verbatim>\<open>merge_meshes\<close> preserves this: whatever it
  returns for a list of well-formed meshes is well formed, and for a non-empty list of
  well-formed meshes with fewer than \<open>2\<^sup>3\<^sup>2\<close> vertices in total it does return a mesh.
\<close>

theorem builders_well_formed:
  assumes "3 \<le> segments" and "3 \<le> rings" and "0 < height"
  shows "well_formed (create_box w h d color origin)
       \<and> well_formed (create_cylinder radius height segments color origin top_radius)
       \<and> (\<exists>m. create_cone radius height segments color origin = Inr m \<and> well_formed m)
       \<and> (\<exists>m. create_half_cylinder radius height segments color origin axis = Inr m \<and> well_formed m)
       \<and> well_formed (create_torus outer_r inner_r segments rings color origin)
       \<and> (\<forall>ms m. list_all well_formed ms \<and> merge_meshes ms = Inr m \<longrightarrow> well_formed m)
       \<and> (\<forall>ms. ms \<noteq> [] \<and> list_all well_formed ms \<and> sum_list (map vertex_count ms) < 2 ^ 32 \<longrightarrow>
             (\<exists>m. merge_meshes ms = Inr m \<and> well_formed m))"
proof (intro conjI allI impI)
  show "well_formed (create_box w h d color origin)"
    by (rule create_box_well_formed)
  show "well_formed (create_cylinder radius height segments color origin top_radius)"
    using assms(1) by (rule create_cylinder_well_formed)
  show "\<exists>m. create_cone radius height segments color origin = Inr m \<and> well_formed m"
    using assms(1,3) by (intro create_cone_well_formed) simp_all
  show "\<exists>m. create_half_cylinder radius height segments color origin axis = Inr m \<and> well_formed m"
    using assms(1) by (intro create_half_cylinder_well_formed) simp
  show "well_formed (create_torus outer_r inner_r segments rings color origin)"
    using assms(1,2) by (rule create_torus_well_formed)
next
  fix ms m assume "list_all well_formed ms \<and> merge_meshes ms = Inr m"
  then show "well_formed m" by (auto intro: merge_meshes_well_formed)
next
  fix ms assume a: "ms \<noteq> [] \<and> list_all well_formed ms \<and> sum_list (map vertex_count ms) < 2 ^ 32"
  then obtain m where m: "merge_meshes ms = Inr m"
    by (auto simp: merge_meshes_Inr)
  with a have "well_formed m" by (auto intro: merge_meshes_well_formed)
  with m show "\<exists>m. merge_meshes ms = Inr m \<and> well_formed m" by blast
qed

theorem builders_well_formed_witness:
  "well_formed (create_box 1 1 1 (1, 0, 0) (0, 0, 0))
 \<and> well_formed (create_cylinder 1 2 6 (1, 0, 0) (0, 0, 0) None)
 \<and> (\<exists>m. create_cone 1 2 6 (1, 0, 0) (0, 0, 0) = Inr m \<and> well_formed m)
 \<and> (\<exists>m. create_half_cylinder 1 2 6 (1, 0, 0) (0, 0, 0) ''z'' = Inr m \<and> well_formed m)
 \<and> well_formed (create_torus 3 1 6 8 (1, 0, 0) (0, 0, 0))
 \<and> (\<exists>m. merge_meshes [create_box 1 1 1 (1, 0, 0) (0, 0, 0), create_cylinder 1 2 6 (1, 0, 0) (0, 0, 0) None] = Inr m
        \<and> well_formed m)"
proof -
  note t = builders_well_formed[of 6 8 2 1 1 1 "(1, 0, 0)" "(0, 0, 0)" 1 None "''z''" 3 1]
  have h: "(3::int) \<le> 6" "(3::int) \<le> 8" "(0::real) < 2" by simp_all
  have c: "sum_list (map vertex_count
             [create_box 1 1 1 (1, 0, 0) (0, 0, 0), create_cylinder 1 2 6 (1, 0, 0) (0, 0, 0) None])
           < 2 ^ 32"
    by (simp add: create_box_vertex_count create_cylinder_vertex_count)
  from t[OF h] have b: "well_formed (create_box 1 1 1 (1, 0, 0) (0, 0, 0))"
      "well_formed (create_cylinder 1 2 6 (1, 0, 0) (0, 0, 0) None)"
    and rest: "(\<exists>m. create_cone 1 2 6 (1, 0, 0) (0, 0, 0) = Inr m \<and> well_formed m)"
      "(\<exists>m. create_half_cylinder 1 2 6 (1, 0, 0) (0, 0, 0) ''z'' = Inr m \<and> well_formed m)"
      "well_formed (create_torus 3 1 6 8 (1, 0, 0) (0, 0, 0))"
    and merge: "\<forall>ms. ms \<noteq> [] \<and> list_all well_formed ms \<and> sum_list (map vertex_count ms) < 2 ^ 32 \<longrightarrow>
             (\<exists>m. merge_meshes ms = Inr m \<and> well_formed m)"
    by blast+
  from b have "list_all well_formed
      [create_box 1 1 1 (1, 0, 0) (0, 0, 0), create_cylinder 1 2 6 (1, 0, 0) (0, 0, 0) None]"
    by simp
  with merge c have "\<exists>m. merge_meshes
      [create_box 1 1 1 (1, 0, 0) (0, 0, 0), create_cylinder 1 2 6 (1, 0, 0) (0, 0, 0) None] = Inr m
        \<and> well_formed m"
    by blast
  with b rest show ?thesis by blast
qed

subsection \<open>The contract of \<^verbatim>\<open>merge_meshes\<close>\<close>

text \<open>
  C1, as stated, fails. On the empty list \<^verbatim>\<open>merge_meshes\<close> raises and returns no
  mesh. And \<^verbatim>\<open>indices + index_offset\<close> is an addition of \<^verbatim>\<open>uint32\<close> values:
  merging a mesh of \<open>2\<^sup>3\<^sup>2 - 1\<close> vertices with one triangle turns the triangle's indices
  0, 1, 2 into \<open>2\<^sup>3\<^sup>2 - 1\<close>, 0, 1, so that the index 1 is not raised by the vertex count of
  the first mesh and the triangle has indices in the ranges of both inputs. A third
  failure lies outside the arrays of triples: an input without vertices, as a builder
  returns it, is an array of shape \<open>(0,)\<close>, which \<^verbatim>\<open>np.vstack\<close> refuses beside arrays of
  rows.
\<close>

theorem merge_meshes_contract_counterexample:
  "merge_meshes [] = Inl ValueError
 \<and> well_formed huge_mesh \<and> well_formed one_triangle
 \<and> merge_meshes [huge_mesh, one_triangle] =
     Inr \<lparr>positions = positions huge_mesh @ positions one_triangle,
          normals = normals huge_mesh @ normals one_triangle,
          colors = colors huge_mesh @ colors one_triangle,
          indices = [4294967295, 0, 1]\<rparr>
 \<and> length (positions huge_mesh) = 4294967295
 \<and> indices one_triangle = [0, 1, 2]"
  by (simp add: merge_meshes_def merge_init_def merge_step_def vstack_def hstack_def
        well_formed_def huge_mesh_def one_triangle_def)

text \<open>
  C1, amended. For every non-empty list of well-formed primitive outputs that have at
  least one vertex each and whose vertex counts sum to less than \<open>2\<^sup>3\<^sup>2\<close>, \<^verbatim>\<open>merge_meshes\<close> returns a mesh whose vertex arrays
  are the concatenations of the inputs' arrays in call order, whose vertex count is the sum
  of the inputs' vertex counts, whose index buffer is the concatenation of each input's
  indices raised by that input's starting offset, and in which the three indices of every
  triangle lie in the offset range of one input; the offset ranges of different inputs do
  not overlap. For two inputs \<open>A\<close> and \<open>B\<close> the indices contributed by \<open>B\<close> are its own
  plus the vertex count of \<open>A\<close>; the instance that follows is a box merged with a cylinder.
\<close>

theorem merge_meshes_contract:
  assumes ne: "ms \<noteq> []" and wf: "list_all well_formed ms"
      and rows: "list_all (\<lambda>m. 0 < vertex_count m) ms"
      and fits: "sum_list (map vertex_count ms) < 2 ^ 32"
  shows "\<exists>m. merge_meshes ms = Inr m
           \<and> positions m = concat (map positions ms)
           \<and> normals m = concat (map normals ms)
           \<and> colors m = concat (map colors ms)
           \<and> vertex_count m = sum_list (map vertex_count ms)
           \<and> map unat (indices m) = spec_index_buffer ms
           \<and> list_all (one_owner ms) (triangles (indices m))
           \<and> (\<forall>j k. j < k \<and> k < length ms \<longrightarrow>
                 start_offset ms j + vertex_count (ms ! j) \<le> start_offset ms k)"
proof -
  define m where "m = \<lparr>positions = concat (map positions ms),
                normals = concat (map normals ms),
                colors = concat (map colors ms),
                indices = concat (map (shifted 0 ms) [0..<length ms])\<rparr>"
  from fits have bound: "sum_list (map vertex_count ms) \<le> 2 ^ 32" by simp
  have wfk: "well_formed (ms ! k)" if "k < length ms" for k
    using wf that by (simp add: list_all_length)
  have r: "merge_meshes ms = Inr m"
    unfolding m_def by (rule merge_meshes_Inr[OF ne])
  have idx: "map unat (indices m) = spec_index_buffer ms"
  proof -
    have "map unat (shifted 0 ms k) = offset_indices ms k" if "k < length ms" for k
      using map_unat_shifted[OF that wfk[OF that] bound] .
    then have eq: "map (map unat \<circ> shifted 0 ms) [0..<length ms] = map (offset_indices ms) [0..<length ms]"
      by (intro map_cong) simp_all
    have "map unat (indices m) = concat (map (map unat \<circ> shifted 0 ms) [0..<length ms])"
      by (simp add: m_def map_concat)
    also have "\<dots> = concat (map (offset_indices ms) [0..<length ms])"
      using eq by (rule arg_cong)
    finally show ?thesis
      by (simp only: spec_index_buffer_def)
  qed
  have tri: "list_all (one_owner ms) (triangles (indices m))"
  proof -
    have "length b mod 3 = 0" if "b \<in> set (map (shifted 0 ms) [0..<length ms])" for b
      using that wfk by (auto simp: length_shifted well_formed_def)
    then have "triangles (concat (map (shifted 0 ms) [0..<length ms]))
                 = concat (map triangles (map (shifted 0 ms) [0..<length ms]))"
      by (rule triangles_concat)
    then have eq: "triangles (indices m) = concat (map triangles (map (shifted 0 ms) [0..<length ms]))"
      by (simp only: m_def mesh.simps)
    have "one_owner ms t" if "t \<in> set (triangles (indices m))" for t
    proof -
      from that eq obtain k where k: "k < length ms" and t: "t \<in> set (triangles (shifted 0 ms k))"
        by auto
      obtain a b c where abc: "t = (a, b, c)" by (cases t)
      from t abc have "(a, b, c) \<in> set (triangles (shifted 0 ms k))" by simp
      from triangles_members[OF this]
      have mem: "a \<in> set (shifted 0 ms k)" "b \<in> set (shifted 0 ms k)" "c \<in> set (shifted 0 ms k)"
        by simp_all
      have "triangle_of_input ms k t"
        unfolding triangle_of_input_def abc
        using shifted_in_range[OF k wfk[OF k] bound] mem by simp
      with k show ?thesis
        unfolding one_owner_def list_ex_iff by auto
    qed
    then show ?thesis by (simp add: list_all_iff)
  qed
  have disj: "\<forall>j k. j < k \<and> k < length ms \<longrightarrow>
                 start_offset ms j + vertex_count (ms ! j) \<le> start_offset ms k"
    using start_offset_le by (simp add: less_imp_le)
  have arrays: "positions m = concat (map positions ms)" "normals m = concat (map normals ms)"
      "colors m = concat (map colors ms)"
    by (simp_all add: m_def)
  have "length (positions m) = sum_list (map vertex_count ms)"
    by (simp only: arrays length_concat_positions)
  then have vc: "vertex_count m = sum_list (map vertex_count ms)"
    by (simp only: vertex_count_def)
  from r arrays vc idx tri disj show ?thesis by blast
qed

theorem merge_meshes_contract_witness:
  "\<exists>m. merge_meshes [create_box 1 1 1 (1, 0, 0) (0, 0, 0), create_cylinder 1 2 6 (0, 1, 0) (3, 0, 0) None] = Inr m
     \<and> vertex_count m = 50
     \<and> map unat (indices m) =
         map unat (indices (create_box 1 1 1 (1, 0, 0) (0, 0, 0)))
         @ map (\<lambda>i. unat i + 24) (indices (create_cylinder 1 2 6 (0, 1, 0) (3, 0, 0) None))
     \<and> list_all (one_owner [create_box 1 1 1 (1, 0, 0) (0, 0, 0), create_cylinder 1 2 6 (0, 1, 0) (3, 0, 0) None])
          (triangles (indices m))"
proof -
  define A where "A = create_box 1 1 1 (1, 0, 0) (0, 0, 0)"
  define B where "B = create_cylinder 1 2 6 (0, 1, 0) (3, 0, 0) None"
  have cA: "vertex_count A = 24" unfolding A_def by (rule create_box_vertex_count)
  have cB: "vertex_count B = 26" unfolding B_def by (simp add: create_cylinder_vertex_count)
  have wf: "list_all well_formed [A, B]"
    unfolding A_def B_def by (simp add: create_box_well_formed create_cylinder_well_formed)
  have bound: "sum_list (map vertex_count [A, B]) < 2 ^ 32" by (simp add: cA cB)
  have ne: "[A, B] \<noteq> []" by simp
  have rows: "list_all (\<lambda>m. 0 < vertex_count m) [A, B]" by (simp add: cA cB)
  from merge_meshes_contract[OF ne wf rows bound] obtain m where
    m: "merge_meshes [A, B] = Inr m" "vertex_count m = sum_list (map vertex_count [A, B])"
       "map unat (indices m) = spec_index_buffer [A, B]"
       "list_all (one_owner [A, B]) (triangles (indices m))"
    by blast
  have "[0..<length [A, B]] = [0, 1]" by (simp add: upt_rec)
  then have "spec_index_buffer [A, B] = map unat (indices A) @ map (\<lambda>i. unat i + 24) (indices B)"
    by (simp add: spec_index_buffer_def offset_indices_def start_offset_def cA)
  with m show ?thesis
    unfolding A_def[symmetric] B_def[symmetric] by (simp add: cA cB)
qed

subsection \<open>Normals and the half-cylinder\<close>

text \<open>
  C3 does not hold of the code. The apex normal of \<^verbatim>\<open>create_cone\<close> is
  \<^verbatim>\<open>[0, 1 / normal_len, 0]\<close>: for radius 3 and height 4 it is \<open>(0, 4/5, 0)\<close>, of length
  \<open>4/5\<close>. The normals of \<^verbatim>\<open>create_half_cylinder\<close> keep one component of the radial
  direction only: with \<^verbatim>\<open>axis='z'\<close> and 8 segments, as \<^verbatim>\<open>create_medkit\<close> calls it,
  the first normal is \<open>(cos (- \<pi> / 2), 0, 0)\<close>, the zero vector. Both values are exact in
  real arithmetic and far from 1, beyond any rounding.
\<close>

theorem cone_and_half_cylinder_normals:
  "(\<exists>m. create_cone 3 4 8 color origin = Inr m
        \<and> normals m ! 0 = (0, 4 / 5, 0)
        \<and> magnitude (normals m ! 0) = 4 / 5)
 \<and> (\<exists>m. create_half_cylinder (18 / 1000) (1 / 10) 8 color origin ''z'' = Inr m
        \<and> normals m ! 0 = (0, 0, 0)
        \<and> magnitude (normals m ! 0) = 0)"
proof -
  obtain ox oy oz where o: "origin = (ox, oy, oz)" by (cases origin)
  have a: "(1::real) + 3 / 4 * (3 / 4) = 25 / 16" by simp
  have r: "py_range 5 = 0 # [1..4]" by (simp add: py_range_def upto_rec1)
  show ?thesis
    by (simp add: o create_cone_def create_half_cylinder_def np_arrays_def Let_def a sqrt_25_16
          sqrt_16_25 magnitude_def r)
qed

text \<open>
  C5 does not hold of the code. \<^verbatim>\<open>create_half_cylinder\<close> computes \<^verbatim>\<open>cos_a\<close> and
  \<^verbatim>\<open>sin_a\<close> and uses one of them: with \<^verbatim>\<open>axis='z'\<close> every position is
  \<open>(ox + radius * cos a, y, oz)\<close>. For the call of \<^verbatim>\<open>create_medkit\<close> (radius 0.018,
  8 segments) the first vertex is the origin itself, at distance 0 from the vertical axis
  through the origin, and all ten vertices have the same third coordinate: the output is a
  flat strip, not half of a cylinder's ring.
\<close>

theorem half_cylinder_vertex_on_axis:
  "\<exists>m. create_half_cylinder (18 / 1000) (1 / 10) 8 color (ox, oy, oz) ''z'' = Inr m
       \<and> positions m ! 0 = (ox, oy, oz)
       \<and> axis_distance (ox, oy, oz) (positions m ! 0) = 0
       \<and> map (\<lambda>(x, y, z). z) (positions m) = [oz, oz, oz, oz, oz, oz, oz, oz, oz, oz]"
proof -
  have r: "py_range 5 = [0, 1, 2, 3, 4]" by (simp add: py_range_def upto_rec1)
  show ?thesis
    by (simp add: create_half_cylinder_def np_arrays_def Let_def axis_distance_def r)
qed

subsection \<open>The layout of the blob\<close>

text \<open>
  C7. For every mesh, \<^verbatim>\<open>create_glb\<close> converts the three vertex arrays to 32-bit floats
  and builds the blob as the concatenation, in the order positions, normals, colours,
  indices, of the four byte strings, each padded with zero bytes to the next multiple of
  four (\<^verbatim>\<open>pad_to_4\<close> is that padding: the result is the shortest extension by zero bytes
  whose length is divisible by 4). The four buffer views record the running sums of the
  padded lengths as byte offsets and the unpadded lengths as byte lengths, so that each view
  reads its array's bytes back from the blob. The bytes of a vertex array are, row after row
  and component after component, the four bytes, low byte first, of the pattern of the
  component rounded to a 32-bit float: twelve bytes a row, and read four bytes at a time
  they give these patterns back in order. The index bytes are the four bytes, low byte
  first, of each 32-bit index. For a mesh with at least one vertex the document is produced,
  with the triangle count, and carries exactly this blob and these views; for a mesh without
  vertices \<^verbatim>\<open>create_glb\<close> raises \<^verbatim>\<open>ValueError\<close>, since an empty array has no minimum.
  The pattern of a 32-bit float is the parameter \<open>bits\<close>.
\<close>

theorem glb_blob_layout:
  "(let s = astype_arrays m;
        pos_bytes = tobytes_f32 bits (positions s);
        norm_bytes = tobytes_f32 bits (normals s);
        color_bytes = tobytes_f32 bits (colors s);
        index_bytes = tobytes_u32 (indices s);
        blob = fst (glb_buffers bits s);
        views = snd (glb_buffers bits s)
    in blob = zero_pad_to_multiple_of_4 pos_bytes @ zero_pad_to_multiple_of_4 norm_bytes
              @ zero_pad_to_multiple_of_4 color_bytes @ zero_pad_to_multiple_of_4 index_bytes
     \<and> map byteOffset views =
         [0,
          length (zero_pad_to_multiple_of_4 pos_bytes),
          length (zero_pad_to_multiple_of_4 pos_bytes) + length (zero_pad_to_multiple_of_4 norm_bytes),
          length (zero_pad_to_multiple_of_4 pos_bytes) + length (zero_pad_to_multiple_of_4 norm_bytes)
            + length (zero_pad_to_multiple_of_4 color_bytes)]
     \<and> map byteLength views = [length pos_bytes, length norm_bytes, length color_bytes, length index_bytes]
     \<and> map target views = [ARRAY_BUFFER, ARRAY_BUFFER, ARRAY_BUFFER, ELEMENT_ARRAY_BUFFER]
     \<and> map (view_bytes blob) views = [pos_bytes, norm_bytes, color_bytes, index_bytes]
     \<and> pos_bytes = concat (map u32_bytes (stored_patterns bits (positions m)))
     \<and> norm_bytes = concat (map u32_bytes (stored_patterns bits (normals m)))
     \<and> color_bytes = concat (map u32_bytes (stored_patterns bits (colors m)))
     \<and> index_bytes = concat (map u32_bytes (indices m))
     \<and> words_of_bytes pos_bytes = stored_patterns bits (positions m)
     \<and> words_of_bytes norm_bytes = stored_patterns bits (normals m)
     \<and> words_of_bytes color_bytes = stored_patterns bits (colors m)
     \<and> words_of_bytes index_bytes = indices m
     \<and> length pos_bytes = 12 * length (positions m)
     \<and> length norm_bytes = 12 * length (normals m)
     \<and> length color_bytes = 12 * length (colors m)
     \<and> length index_bytes = 4 * length (indices m)
     \<and> (positions m \<noteq> [] \<longrightarrow>
          (\<exists>g. glb_document bits m = Inr (g, length (indices m) div 3)
             \<and> binary_blob g = blob \<and> bufferViews g = views
             \<and> buffer_byteLength g = length blob))
     \<and> (positions m = [] \<longrightarrow> glb_document bits m = Inl ValueError))
 \<and> (\<forall>d. pad_to_4 d = zero_pad_to_multiple_of_4 d
        \<and> length (zero_pad_to_multiple_of_4 d) mod 4 = 0
        \<and> length d \<le> length (zero_pad_to_multiple_of_4 d)
        \<and> length (zero_pad_to_multiple_of_4 d) < length d + 4)"
proof -
  define s where "s = astype_arrays m"
  have sel: "positions s = astype_float32 (positions m)" "normals s = astype_float32 (normals m)"
      "colors s = astype_float32 (colors m)" "indices s = indices m"
    by (simp_all add: s_def astype_arrays_sel)
  have pat: "tobytes_f32 bits (astype_float32 rows) = concat (map u32_bytes (stored_patterns bits rows))"
    for rows
    by (simp only: tobytes_f32_patterns stored_patterns_astype)
  have doc: "\<exists>g. glb_document bits m = Inr (g, length (indices m) div 3)
             \<and> binary_blob g = fst (glb_buffers bits s) \<and> bufferViews g = snd (glb_buffers bits s)
             \<and> buffer_byteLength g = length (fst (glb_buffers bits s))"
    if "positions m \<noteq> []"
    using glb_document_Inr[OF that, of bits] by (auto simp: s_def)
  have pad: "pad_to_4 d = zero_pad_to_multiple_of_4 d
        \<and> length (zero_pad_to_multiple_of_4 d) mod 4 = 0
        \<and> length d \<le> length (zero_pad_to_multiple_of_4 d)
        \<and> length (zero_pad_to_multiple_of_4 d) < length d + 4" for d
    using zero_pad_least[of d] by (simp add: pad_to_4_spec)
  show ?thesis
    unfolding Let_def s_def[symmetric]
  proof (intro conjI allI impI)
    show "map (view_bytes (fst (glb_buffers bits s))) (snd (glb_buffers bits s)) =
            [tobytes_f32 bits (positions s), tobytes_f32 bits (normals s),
             tobytes_f32 bits (colors s), tobytes_u32 (indices s)]"
      by (rule glb_views_read_back)
    show "tobytes_f32 bits (positions s) = concat (map u32_bytes (stored_patterns bits (positions m)))"
      by (simp only: sel pat)
    show "tobytes_f32 bits (normals s) = concat (map u32_bytes (stored_patterns bits (normals m)))"
      by (simp only: sel pat)
    show "tobytes_f32 bits (colors s) = concat (map u32_bytes (stored_patterns bits (colors m)))"
      by (simp only: sel pat)
    show "tobytes_u32 (indices s) = concat (map u32_bytes (indices m))"
      by (simp add: sel tobytes_u32_def)
    show "words_of_bytes (tobytes_f32 bits (positions s)) = stored_patterns bits (positions m)"
      by (simp only: sel words_of_bytes_tobytes_f32)
    show "words_of_bytes (tobytes_f32 bits (normals s)) = stored_patterns bits (normals m)"
      by (simp only: sel words_of_bytes_tobytes_f32)
    show "words_of_bytes (tobytes_f32 bits (colors s)) = stored_patterns bits (colors m)"
      by (simp only: sel words_of_bytes_tobytes_f32)
    show "words_of_bytes (tobytes_u32 (indices s)) = indices m"
      by (simp only: sel words_of_bytes_tobytes_u32)
    show "length (tobytes_f32 bits (positions s)) = 12 * length (positions m)"
      by (simp add: sel length_tobytes_f32 length_astype_float32)
    show "length (tobytes_f32 bits (normals s)) = 12 * length (normals m)"
      by (simp add: sel length_tobytes_f32 length_astype_float32)
    show "length (tobytes_f32 bits (colors s)) = 12 * length (colors m)"
      by (simp add: sel length_tobytes_f32 length_astype_float32)
    show "length (tobytes_u32 (indices s)) = 4 * length (indices m)"
      by (simp add: sel length_tobytes_u32)
    show "\<exists>g. glb_document bits m = Inr (g, length (indices m) div 3)
             \<and> binary_blob g = fst (glb_buffers bits s) \<and> bufferViews g = snd (glb_buffers bits s)
             \<and> buffer_byteLength g = length (fst (glb_buffers bits s))"
      if "positions m \<noteq> []" using doc[OF that] .
    show "glb_document bits m = Inl ValueError" if "positions m = []"
      using that by (rule glb_document_Nil)
    show "pad_to_4 d = zero_pad_to_multiple_of_4 d" for d using pad[of d] by blast
    show "length (zero_pad_to_multiple_of_4 d) mod 4 = 0" for d using pad[of d] by blast
    show "length d \<le> length (zero_pad_to_multiple_of_4 d)" for d using pad[of d] by blast
    show "length (zero_pad_to_multiple_of_4 d) < length d + 4" for d using pad[of d] by blast
  qed (simp_all add: glb_buffers_layout)
qed

theorem glb_blob_layout_witness:
  "\<forall>bits. positions example_box \<noteq> []
     \<and> (\<exists>g. glb_document bits example_box = Inr (g, 12)
          \<and> binary_blob g = fst (glb_buffers bits (astype_arrays example_box))
          \<and> bufferViews g = snd (glb_buffers bits (astype_arrays example_box))
          \<and> buffer_byteLength g = 1008
          \<and> map byteOffset (bufferViews g) = [0, 288, 576, 864]
          \<and> map byteLength (bufferViews g) = [288, 288, 288, 144]
          \<and> take 12 (view_bytes (binary_blob g) (bufferViews g ! 3)) = [0, 0, 0, 0, 1, 0, 0, 0, 2, 0, 0, 0]
          \<and> take 3 (words_of_bytes (view_bytes (binary_blob g) (bufferViews g ! 0)))
              = [bits (float32 (- 0.14)), bits (float32 (- 0.09)), bits (float32 0.05)])"
proof
  fix bits :: "real \<Rightarrow> u32"
  define B where "B = example_box"
  define s where "s = astype_arrays B"
  have len: "length (positions B) = 24" "length (normals B) = 24" "length (colors B) = 24"
      "length (indices B) = 36"
    by (simp_all add: B_def example_box_def create_box_def Let_def)
  then have ne: "positions B \<noteq> []" by auto
  note t = glb_blob_layout[of B bits, unfolded Let_def, folded s_def]
  from t ne obtain g where g: "glb_document bits B = Inr (g, length (indices B) div 3)"
      "binary_blob g = fst (glb_buffers bits s)" "bufferViews g = snd (glb_buffers bits s)"
      "buffer_byteLength g = length (fst (glb_buffers bits s))"
    by blast
  from t have blob: "fst (glb_buffers bits s) =
        zero_pad_to_multiple_of_4 (tobytes_f32 bits (positions s))
        @ zero_pad_to_multiple_of_4 (tobytes_f32 bits (normals s))
        @ zero_pad_to_multiple_of_4 (tobytes_f32 bits (colors s))
        @ zero_pad_to_multiple_of_4 (tobytes_u32 (indices s))"
    and off: "map byteOffset (snd (glb_buffers bits s)) =
         [0,
          length (zero_pad_to_multiple_of_4 (tobytes_f32 bits (positions s))),
          length (zero_pad_to_multiple_of_4 (tobytes_f32 bits (positions s)))
            + length (zero_pad_to_multiple_of_4 (tobytes_f32 bits (normals s))),
          length (zero_pad_to_multiple_of_4 (tobytes_f32 bits (positions s)))
            + length (zero_pad_to_multiple_of_4 (tobytes_f32 bits (normals s)))
            + length (zero_pad_to_multiple_of_4 (tobytes_f32 bits (colors s)))]"
    and ln: "map byteLength (snd (glb_buffers bits s)) =
         [length (tobytes_f32 bits (positions s)), length (tobytes_f32 bits (normals s)),
          length (tobytes_f32 bits (colors s)), length (tobytes_u32 (indices s))]"
    and rb: "map (view_bytes (fst (glb_buffers bits s))) (snd (glb_buffers bits s)) =
         [tobytes_f32 bits (positions s), tobytes_f32 bits (normals s),
          tobytes_f32 bits (colors s), tobytes_u32 (indices s)]"
    and ib: "tobytes_u32 (indices s) = concat (map u32_bytes (indices B))"
    and pw: "words_of_bytes (tobytes_f32 bits (positions s)) = stored_patterns bits (positions B)"
    and ls: "length (tobytes_f32 bits (positions s)) = 12 * length (positions B)"
      "length (tobytes_f32 bits (normals s)) = 12 * length (normals B)"
      "length (tobytes_f32 bits (colors s)) = 12 * length (colors B)"
      "length (tobytes_u32 (indices s)) = 4 * length (indices B)"
    by blast+
  have nv: "length (snd (glb_buffers bits s)) = 4"
    using arg_cong[OF ln, of length] by simp
  have v3: "view_bytes (fst (glb_buffers bits s)) (snd (glb_buffers bits s) ! 3) = tobytes_u32 (indices s)"
    using arg_cong[OF rb, of "\<lambda>l. l ! 3"] nv by simp
  have v0: "view_bytes (fst (glb_buffers bits s)) (snd (glb_buffers bits s) ! 0) = tobytes_f32 bits (positions s)"
    using arg_cong[OF rb, of "\<lambda>l. l ! 0"] nv by simp
  have o: "map byteOffset (bufferViews g) = [0, 288, 576, 864]"
    unfolding g off by (simp add: length_zero_pad ls len)
  have l: "map byteLength (bufferViews g) = [288, 288, 288, 144]"
    unfolding g ln by (simp add: ls len)
  have bl: "buffer_byteLength g = 1008"
    unfolding g blob by (simp add: length_zero_pad ls len)
  have i12: "take 12 (view_bytes (binary_blob g) (bufferViews g ! 3)) = [0, 0, 0, 0, 1, 0, 0, 0, 2, 0, 0, 0]"
    unfolding g v3 ib by (simp add: B_def example_box_def create_box_def Let_def u32_bytes_def)
  have p3: "take 3 (words_of_bytes (view_bytes (binary_blob g) (bufferViews g ! 0)))
              = [bits (float32 (- 0.14)), bits (float32 (- 0.09)), bits (float32 0.05)]"
    unfolding g v0 pw by (simp add: B_def example_box_def create_box_def Let_def stored_patterns_def)
  show "positions example_box \<noteq> []
     \<and> (\<exists>g. glb_document bits example_box = Inr (g, 12)
          \<and> binary_blob g = fst (glb_buffers bits (astype_arrays example_box))
          \<and> bufferViews g = snd (glb_buffers bits (astype_arrays example_box))
          \<and> buffer_byteLength g = 1008
          \<and> map byteOffset (bufferViews g) = [0, 288, 576, 864]
          \<and> map byteLength (bufferViews g) = [288, 288, 288, 144]
          \<and> take 12 (view_bytes (binary_blob g) (bufferViews g ! 3)) = [0, 0, 0, 0, 1, 0, 0, 0, 2, 0, 0, 0]
          \<and> take 3 (words_of_bytes (view_bytes (binary_blob g) (bufferViews g ! 0)))
              = [bits (float32 (- 0.14)), bits (float32 (- 0.09)), bits (float32 0.05)])"
    unfolding B_def[symmetric] s_def[symmetric]
  proof (intro exI conjI)
    show "glb_document bits B = Inr (g, 12)" using g(1) len by simp
  qed (rule ne g(2) g(3) bl o l i12 p3)+
qed

subsection \<open>The bounds of the position accessor\<close>

text \<open>
  C8, as stated, fails on its example. The positions are stored as 32-bit floats, and
  0.14, 0.09 and 0.05 are not 32-bit floats: for the box of size 0.28, 0.18, 0.10 at the
  origin the accessor records the floats nearest to them, \<open>9395241 / 2\<^sup>2\<^sup>6\<close>,
  \<open>3019899 / 2\<^sup>2\<^sup>5\<close> and \<open>13421773 / 2\<^sup>2\<^sup>8\<close>, and not the decimal numbers of the claim.
\<close>

theorem position_accessor_bounds_counterexample:
  "\<forall>bits chunks fs path. \<exists>g.
      glb_document bits example_box = Inr (g, 12)
    \<and> create_glb bits chunks None fs example_box path = (fs(path \<mapsto> glb_file chunks g), Inr 12)
    \<and> count (accessors g ! 0) = 24
    \<and> accessor_min (accessors g ! 0) =
        Some (- (9395241 / 67108864), - (3019899 / 33554432), - (13421773 / 268435456))
    \<and> accessor_max (accessors g ! 0) =
        Some (9395241 / 67108864, 3019899 / 33554432, 13421773 / 268435456)
    \<and> accessor_min (accessors g ! 0) \<noteq> Some (- 0.14, - 0.09, - 0.05)
    \<and> accessor_max (accessors g ! 0) \<noteq> Some (0.14, 0.09, 0.05)"
proof (intro allI)
  fix bits :: "real \<Rightarrow> u32" and chunks :: "gltf \<Rightarrow> byte list" and fs :: file_system and path :: string
  from example_box_document[of bits] obtain g where g: "glb_document bits example_box = Inr (g, 12)"
      "count (accessors g ! 0) = 24"
      "accessor_min (accessors g ! 0) =
         Some (- (9395241 / 67108864), - (3019899 / 33554432), - (13421773 / 268435456))"
      "accessor_max (accessors g ! 0) =
         Some (9395241 / 67108864, 3019899 / 33554432, 13421773 / 268435456)"
    by blast
  have w: "create_glb bits chunks None fs example_box path = (fs(path \<mapsto> glb_file chunks g), Inr 12)"
    by (rule create_glb_document(1)[OF g(1)])
  have n1: "accessor_min (accessors g ! 0) \<noteq> Some (- 0.14, - 0.09, - 0.05)"
    unfolding g(3) by simp
  have n2: "accessor_max (accessors g ! 0) \<noteq> Some (0.14, 0.09, 0.05)"
    unfolding g(4) by simp
  show "\<exists>g.
      glb_document bits example_box = Inr (g, 12)
    \<and> create_glb bits chunks None fs example_box path = (fs(path \<mapsto> glb_file chunks g), Inr 12)
    \<and> count (accessors g ! 0) = 24
    \<and> accessor_min (accessors g ! 0) =
        Some (- (9395241 / 67108864), - (3019899 / 33554432), - (13421773 / 268435456))
    \<and> accessor_max (accessors g ! 0) =
        Some (9395241 / 67108864, 3019899 / 33554432, 13421773 / 268435456)
    \<and> accessor_min (accessors g ! 0) \<noteq> Some (- 0.14, - 0.09, - 0.05)
    \<and> accessor_max (accessors g ! 0) \<noteq> Some (0.14, 0.09, 0.05)"
    by (intro exI conjI) (rule g w n1 n2)+
qed

text \<open>
  C8, amended. For every mesh with at least one vertex, \<^verbatim>\<open>create_glb\<close> produces the
  document and writes the file, and the minimum and maximum recorded in the position
  accessor are the componentwise minimum and maximum over all positions as they are stored,
  that is, rounded to 32-bit floats. The box of size 0.28, 0.18, 0.10 at the origin
  serialises to a mesh of 24 vertices and 12 triangles whose bounds are the 32-bit floats
  nearest to \<open>(-0.14, -0.09, -0.05)\<close> and \<open>(0.14, 0.09, 0.05)\<close>; these floats are
  \<open>9395241 / 2\<^sup>2\<^sup>6\<close>, \<open>3019899 / 2\<^sup>2\<^sup>5\<close> and \<open>13421773 / 2\<^sup>2\<^sup>8\<close> and lie within
  \<open>10\<^sup>-\<^sup>8\<close> of the decimal numbers.
\<close>

theorem position_accessor_bounds:
  "(positions m \<noteq> [] \<longrightarrow>
      (\<exists>g. glb_document bits m = Inr (g, length (indices m) div 3)
         \<and> create_glb bits chunks None fs m path
             = (fs(path \<mapsto> glb_file chunks g), Inr (length (indices m) div 3))
         \<and> count (accessors g ! 0) = length (positions m)
         \<and> accessor_min (accessors g ! 0) =
             Some (Min (fst ` set (astype_float32 (positions m))),
                   Min ((fst \<circ> snd) ` set (astype_float32 (positions m))),
                   Min ((snd \<circ> snd) ` set (astype_float32 (positions m))))
         \<and> accessor_max (accessors g ! 0) =
             Some (Max (fst ` set (astype_float32 (positions m))),
                   Max ((fst \<circ> snd) ` set (astype_float32 (positions m))),
                   Max ((snd \<circ> snd) ` set (astype_float32 (positions m))))))
 \<and> (\<exists>g. glb_document bits example_box = Inr (g, 12)
        \<and> create_glb bits chunks None fs example_box path = (fs(path \<mapsto> glb_file chunks g), Inr 12)
        \<and> count (accessors g ! 0) = 24
        \<and> accessor_min (accessors g ! 0) = Some (- float32 0.14, - float32 0.09, - float32 0.05)
        \<and> accessor_max (accessors g ! 0) = Some (float32 0.14, float32 0.09, float32 0.05))
 \<and> float32 0.14 = 9395241 / 67108864 \<and> \<bar>float32 0.14 - 0.14\<bar> < 1 / 10 ^ 8
 \<and> float32 0.09 = 3019899 / 33554432 \<and> \<bar>float32 0.09 - 0.09\<bar> < 1 / 10 ^ 8
 \<and> float32 0.05 = 13421773 / 268435456 \<and> \<bar>float32 0.05 - 0.05\<bar> < 1 / 10 ^ 8"
proof (intro conjI impI)
  assume ne: "positions m \<noteq> []"
  from glb_document_bounds[OF ne, of bits] obtain g where
    g: "glb_document bits m = Inr (g, length (indices m) div 3)"
       "count (accessors g ! 0) = length (positions m)"
       "accessor_min (accessors g ! 0) =
             Some (Min (fst ` set (astype_float32 (positions m))),
                   Min ((fst \<circ> snd) ` set (astype_float32 (positions m))),
                   Min ((snd \<circ> snd) ` set (astype_float32 (positions m))))"
       "accessor_max (accessors g ! 0) =
             Some (Max (fst ` set (astype_float32 (positions m))),
                   Max ((fst \<circ> snd) ` set (astype_float32 (positions m))),
                   Max ((snd \<circ> snd) ` set (astype_float32 (positions m))))"
    by blast
  have w: "create_glb bits chunks None fs m path
             = (fs(path \<mapsto> glb_file chunks g), Inr (length (indices m) div 3))"
    by (rule create_glb_document(1)[OF g(1)])
  show "\<exists>g. glb_document bits m = Inr (g, length (indices m) div 3)
         \<and> create_glb bits chunks None fs m path
             = (fs(path \<mapsto> glb_file chunks g), Inr (length (indices m) div 3))
         \<and> count (accessors g ! 0) = length (positions m)
         \<and> accessor_min (accessors g ! 0) =
             Some (Min (fst ` set (astype_float32 (positions m))),
                   Min ((fst \<circ> snd) ` set (astype_float32 (positions m))),
                   Min ((snd \<circ> snd) ` set (astype_float32 (positions m))))
         \<and> accessor_max (accessors g ! 0) =
             Some (Max (fst ` set (astype_float32 (positions m))),
                   Max ((fst \<circ> snd) ` set (astype_float32 (positions m))),
                   Max ((snd \<circ> snd) ` set (astype_float32 (positions m))))"
    by (intro exI conjI) (rule g w)+
next
  from example_box_document[of bits] obtain g where g: "glb_document bits example_box = Inr (g, 12)"
      "count (accessors g ! 0) = 24"
      "accessor_min (accessors g ! 0) =
         Some (- (9395241 / 67108864), - (3019899 / 33554432), - (13421773 / 268435456))"
      "accessor_max (accessors g ! 0) =
         Some (9395241 / 67108864, 3019899 / 33554432, 13421773 / 268435456)"
    by blast
  have w: "create_glb bits chunks None fs example_box path = (fs(path \<mapsto> glb_file chunks g), Inr 12)"
    by (rule create_glb_document(1)[OF g(1)])
  have lo: "accessor_min (accessors g ! 0) = Some (- float32 0.14, - float32 0.09, - float32 0.05)"
    unfolding g(3) float32_0_14 float32_0_09 float32_0_05 by simp
  have hi: "accessor_max (accessors g ! 0) = Some (float32 0.14, float32 0.09, float32 0.05)"
    unfolding g(4) float32_0_14 float32_0_09 float32_0_05 by simp
  show "\<exists>g. glb_document bits example_box = Inr (g, 12)
        \<and> create_glb bits chunks None fs example_box path = (fs(path \<mapsto> glb_file chunks g), Inr 12)
        \<and> count (accessors g ! 0) = 24
        \<and> accessor_min (accessors g ! 0) = Some (- float32 0.14, - float32 0.09, - float32 0.05)
        \<and> accessor_max (accessors g ! 0) = Some (float32 0.14, float32 0.09, float32 0.05)"
    by (intro exI conjI) (rule g(1) w g(2) lo hi)+
qed (rule float32_0_14 float32_0_09 float32_0_05 float32_close)+

theorem position_accessor_bounds_witness:
  "\<forall>bits chunks fs path.
     positions (create_box 2 4 6 (1, 0, 0) (1, 2, 3)) \<noteq> []
   \<and> (\<exists>g. glb_document bits (create_box 2 4 6 (1, 0, 0) (1, 2, 3)) = Inr (g, 12)
        \<and> create_glb bits chunks None fs (create_box 2 4 6 (1, 0, 0) (1, 2, 3)) path
            = (fs(path \<mapsto> glb_file chunks g), Inr 12)
        \<and> count (accessors g ! 0) = 24
        \<and> accessor_min (accessors g ! 0) = Some (0, 0, 0)
        \<and> accessor_max (accessors g ! 0) = Some (2, 4, 6))"
proof (intro allI)
  fix bits :: "real \<Rightarrow> u32" and chunks :: "gltf \<Rightarrow> byte list" and fs :: file_system and path :: string
  define B where "B = create_box 2 4 6 (1, 0, 0) (1, 2, 3)"
  have ne: "positions B \<noteq> []" by (simp add: B_def create_box_def Let_def)
  have len: "length (positions B) = 24" "length (indices B) div 3 = 12"
    by (simp_all add: B_def create_box_def Let_def)
  have lo: "min_axis0 (positions (astype_arrays B)) = Inr (0, 0, 0)"
    by (simp add: B_def create_box_def Let_def astype_arrays_sel astype_float32_def min_axis0_def
          float32_0 float32_2 float32_4 float32_6)
  have hi: "max_axis0 (positions (astype_arrays B)) = Inr (2, 4, 6)"
    by (simp add: B_def create_box_def Let_def astype_arrays_sel astype_float32_def max_axis0_def
          float32_0 float32_2 float32_4 float32_6)
  from position_accessor_bounds[of B bits chunks fs path] ne obtain g where
    g: "glb_document bits B = Inr (g, length (indices B) div 3)"
       "create_glb bits chunks None fs B path
             = (fs(path \<mapsto> glb_file chunks g), Inr (length (indices B) div 3))"
       "count (accessors g ! 0) = length (positions B)"
    by blast
  from g(1) have b: "accessor_min (accessors g ! 0) = Some (0, 0, 0)"
      "accessor_max (accessors g ! 0) = Some (2, 4, 6)"
    by (auto simp: glb_document_def glb_accessors_def Let_def lo hi split: prod.splits)
  show "positions (create_box 2 4 6 (1, 0, 0) (1, 2, 3)) \<noteq> []
   \<and> (\<exists>g. glb_document bits (create_box 2 4 6 (1, 0, 0) (1, 2, 3)) = Inr (g, 12)
        \<and> create_glb bits chunks None fs (create_box 2 4 6 (1, 0, 0) (1, 2, 3)) path
            = (fs(path \<mapsto> glb_file chunks g), Inr 12)
        \<and> count (accessors g ! 0) = 24
        \<and> accessor_min (accessors g ! 0) = Some (0, 0, 0)
        \<and> accessor_max (accessors g ! 0) = Some (2, 4, 6))"
    unfolding B_def[symmetric]
    using ne g b unfolding len by blast
qed

subsection \<open>Storage failures\<close>

text \<open>
  C9, as stated, fails. \<^verbatim>\<open>create_glb\<close> has pygltflib write straight onto
  \<^verbatim>\<open>output_path\<close>; there is no temporary path, no rename and no \<^verbatim>\<open>try\<close>. A write that
  fails after four bytes leaves the four bytes of the magic number in a file that held
  other contents before: the target is neither unchanged nor a complete file, which has at
  least twelve bytes.
\<close>

theorem create_glb_storage_failure_counterexample:
  "\<forall>bits chunks.
     create_glb bits chunks (Some (WriteFailsAfter 4)) [''medkit.glb'' \<mapsto> [1, 2, 3]]
         example_box ''medkit.glb''
       = ([''medkit.glb'' \<mapsto> [0x67, 0x6C, 0x54, 0x46]], Inl OSError)
   \<and> [0x67, 0x6C, 0x54, 0x46] \<noteq> [1, 2, 3 :: byte]
   \<and> (\<forall>g. glb_file chunks g \<noteq> [0x67, 0x6C, 0x54, 0x46])"
proof (intro allI conjI)
  fix bits :: "real \<Rightarrow> u32" and chunks :: "gltf \<Rightarrow> byte list" and g :: gltf
  from example_box_document[of bits] obtain d where d: "glb_document bits example_box = Inr (d, 12)"
    by blast
  show "create_glb bits chunks (Some (WriteFailsAfter 4)) [''medkit.glb'' \<mapsto> [1, 2, 3]]
         example_box ''medkit.glb''
       = ([''medkit.glb'' \<mapsto> [0x67, 0x6C, 0x54, 0x46]], Inl OSError)"
    by (simp add: create_glb_document(3)[OF d] glb_file_magic)
  show "[0x67, 0x6C, 0x54, 0x46] \<noteq> [1, 2, 3 :: byte]" by simp
  have "length (glb_file chunks g) \<noteq> 4" by (simp add: length_glb_file)
  then show "glb_file chunks g \<noteq> [0x67, 0x6C, 0x54, 0x46]" by auto
qed

text \<open>
  C9, amended. A storage failure is surfaced to the caller: \<^verbatim>\<open>create_glb\<close> raises and
  returns no triangle count whenever the storage fails. The target is written in place:
  when the path cannot be opened the file system is unchanged; when the write fails after
  \<open>k\<close> bytes the target holds the first \<open>k\<close> bytes of the file, so it can be left partially
  written; without a failure it holds the complete file and the triangle count is returned.
  No path other than the target is modified. A mesh with at least one vertex reaches the
  write; a mesh without vertices raises \<^verbatim>\<open>ValueError\<close> before anything is written.
\<close>

theorem create_glb_storage_failure:
  "(\<forall>g t. glb_document bits m = Inr (g, t) \<longrightarrow>
       create_glb bits chunks None fs m path = (fs(path \<mapsto> glb_file chunks g), Inr t)
     \<and> create_glb bits chunks (Some OpenFails) fs m path = (fs, Inl OSError)
     \<and> (\<forall>k. create_glb bits chunks (Some (WriteFailsAfter k)) fs m path
              = (fs(path \<mapsto> take k (glb_file chunks g)), Inl OSError)))
 \<and> (\<forall>e. glb_document bits m = Inl e \<longrightarrow> create_glb bits chunks fault fs m path = (fs, Inl e))
 \<and> (fault \<noteq> None \<longrightarrow> (\<exists>e. snd (create_glb bits chunks fault fs m path) = Inl e))
 \<and> (\<forall>q. q \<noteq> path \<longrightarrow> fst (create_glb bits chunks fault fs m path) q = fs q)
 \<and> (positions m \<noteq> [] \<longrightarrow> (\<exists>g. glb_document bits m = Inr (g, length (indices m) div 3)))
 \<and> (positions m = [] \<longrightarrow> glb_document bits m = Inl ValueError)
 \<and> (\<forall>g. length (glb_file chunks g) = 12 + length (chunks g))"
proof (intro conjI allI impI)
  fix g t k assume d: "glb_document bits m = Inr (g, t)"
  show "create_glb bits chunks None fs m path = (fs(path \<mapsto> glb_file chunks g), Inr t)"
    by (rule create_glb_document(1)[OF d])
  show "create_glb bits chunks (Some OpenFails) fs m path = (fs, Inl OSError)"
    by (rule create_glb_document(2)[OF d])
  show "create_glb bits chunks (Some (WriteFailsAfter k)) fs m path
              = (fs(path \<mapsto> take k (glb_file chunks g)), Inl OSError)"
    by (rule create_glb_document(3)[OF d])
next
  fix e assume "glb_document bits m = Inl e"
  then show "create_glb bits chunks fault fs m path = (fs, Inl e)"
    by (rule create_glb_no_document)
next
  assume "fault \<noteq> None"
  then show "\<exists>e. snd (create_glb bits chunks fault fs m path) = Inl e"
    by (rule create_glb_fault_raises)
next
  fix q assume "q \<noteq> path"
  then show "fst (create_glb bits chunks fault fs m path) q = fs q"
    by (rule create_glb_other_paths)
next
  assume ne: "positions m \<noteq> []"
  from glb_document_Inr[OF ne, of bits]
  show "\<exists>g. glb_document bits m = Inr (g, length (indices m) div 3)" by blast
next
  assume "positions m = []"
  then show "glb_document bits m = Inl ValueError" by (rule glb_document_Nil)
next
  fix g show "length (glb_file chunks g) = 12 + length (chunks g)" by (rule length_glb_file)
qed

theorem create_glb_storage_failure_witness:
  "\<forall>bits chunks. positions example_box \<noteq> []
   \<and> (\<exists>g. glb_document bits example_box = Inr (g, 12)
        \<and> create_glb bits chunks None [''a.glb'' \<mapsto> [1], ''b.glb'' \<mapsto> [2]] example_box ''a.glb''
            = ([''a.glb'' \<mapsto> glb_file chunks g, ''b.glb'' \<mapsto> [2]], Inr 12)
        \<and> create_glb bits chunks (Some OpenFails) [''a.glb'' \<mapsto> [1], ''b.glb'' \<mapsto> [2]] example_box ''a.glb''
            = ([''a.glb'' \<mapsto> [1], ''b.glb'' \<mapsto> [2]], Inl OSError)
        \<and> create_glb bits chunks (Some (WriteFailsAfter 8)) [''a.glb'' \<mapsto> [1], ''b.glb'' \<mapsto> [2]]
              example_box ''a.glb''
            = ([''a.glb'' \<mapsto> [0x67, 0x6C, 0x54, 0x46, 2, 0, 0, 0], ''b.glb'' \<mapsto> [2]], Inl OSError))"
proof (intro allI)
  fix bits :: "real \<Rightarrow> u32" and chunks :: "gltf \<Rightarrow> byte list"
  define fs :: file_system where "fs = [''a.glb'' \<mapsto> [1], ''b.glb'' \<mapsto> [2]]"
  have ne: "positions example_box \<noteq> []" using example_box_counts(1) by auto
  have tri: "length (indices example_box) div 3 = 12" by (simp add: example_box_counts)
  note t = create_glb_storage_failure[of bits example_box chunks fs "''a.glb''" None]
  note t1 = t[THEN conjunct1, rule_format]
  note t5 = t[THEN conjunct2, THEN conjunct2, THEN conjunct2, THEN conjunct2, THEN conjunct1, rule_format]
  from t5[OF ne] obtain g where g: "glb_document bits example_box = Inr (g, length (indices example_box) div 3)"
    by (rule exE)
  note r = t1[OF g]
  have a: "create_glb bits chunks None fs example_box ''a.glb''
          = (fs(''a.glb'' \<mapsto> glb_file chunks g), Inr (length (indices example_box) div 3))"
    by (rule r[THEN conjunct1])
  have b: "create_glb bits chunks (Some OpenFails) fs example_box ''a.glb'' = (fs, Inl OSError)"
    by (rule r[THEN conjunct2, THEN conjunct1])
  have c: "create_glb bits chunks (Some (WriteFailsAfter 8)) fs example_box ''a.glb''
          = (fs(''a.glb'' \<mapsto> take 8 (glb_file chunks g)), Inl OSError)"
    by (rule r[THEN conjunct2, THEN conjunct2, rule_format])
  have t8: "take 8 (glb_file chunks g) = [0x67, 0x6C, 0x54, 0x46, 2, 0, 0, 0]"
    by (simp add: glb_file_def u32_bytes_def)
  have u1: "fs(''a.glb'' \<mapsto> x) = [''a.glb'' \<mapsto> x, ''b.glb'' \<mapsto> [2]]" for x
    by (rule ext) (simp add: fs_def)
  show "positions example_box \<noteq> []
   \<and> (\<exists>g. glb_document bits example_box = Inr (g, 12)
        \<and> create_glb bits chunks None [''a.glb'' \<mapsto> [1], ''b.glb'' \<mapsto> [2]] example_box ''a.glb''
            = ([''a.glb'' \<mapsto> glb_file chunks g, ''b.glb'' \<mapsto> [2]], Inr 12)
        \<and> create_glb bits chunks (Some OpenFails) [''a.glb'' \<mapsto> [1], ''b.glb'' \<mapsto> [2]] example_box ''a.glb''
            = ([''a.glb'' \<mapsto> [1], ''b.glb'' \<mapsto> [2]], Inl OSError)
        \<and> create_glb bits chunks (Some (WriteFailsAfter 8)) [''a.glb'' \<mapsto> [1], ''b.glb'' \<mapsto> [2]]
              example_box ''a.glb''
            = ([''a.glb'' \<mapsto> [0x67, 0x6C, 0x54, 0x46, 2, 0, 0, 0], ''b.glb'' \<mapsto> [2]], Inl OSError))"
    unfolding fs_def[symmetric]
  proof (intro conjI exI)
    show "positions example_box \<noteq> []" by (rule ne)
    show "glb_document bits example_box = Inr (g, 12)" using g unfolding tri .
    show "create_glb bits chunks None fs example_box ''a.glb''
            = ([''a.glb'' \<mapsto> glb_file chunks g, ''b.glb'' \<mapsto> [2]], Inr 12)"
      using a unfolding u1 tri .
    show "create_glb bits chunks (Some OpenFails) fs example_box ''a.glb'' = (fs, Inl OSError)"
      by (rule b)
    show "create_glb bits chunks (Some (WriteFailsAfter 8)) fs example_box ''a.glb''
            = ([''a.glb'' \<mapsto> [0x67, 0x6C, 0x54, 0x46, 2, 0, 0, 0], ''b.glb'' \<mapsto> [2]], Inl OSError)"
      using c unfolding u1 t8 .
  qed
qed

end
